theory Spec2Isabelle
  imports Main "HOL-Library.Char_ord" "HOL-Library.List_Lexorder"
begin

section \<open>Python strings and POSIX paths\<close>

text \<open>
  The validator (\<^verbatim>\<open>scripts/validator.py\<close>) works on path strings with
  \<^verbatim>\<open>str.startswith\<close>, \<^verbatim>\<open>str.endswith\<close>, the substring test
  \<^verbatim>\<open>in\<close>, \<^verbatim>\<open>str.split\<close> and the functions of
  \<^verbatim>\<open>os.path\<close> (POSIX flavour). They are written out here as the
  standard library defines them.
\<close>

definition startswith :: "string \<Rightarrow> string \<Rightarrow> bool" where
  "startswith s pre = (take (length pre) s = pre)"

definition endswith :: "string \<Rightarrow> string \<Rightarrow> bool" where
  "endswith s suf = (length suf \<le> length s \<and> drop (length s - length suf) s = suf)"

text \<open>\<^verbatim>\<open>sub in s\<close>: \<open>sub\<close> occurs in \<open>s\<close> as a contiguous run.\<close>

fun contains :: "string \<Rightarrow> string \<Rightarrow> bool" where
  "contains [] sub = (sub = [])"
| "contains (c # cs) sub = (startswith (c # cs) sub \<or> contains cs sub)"

text \<open>\<^verbatim>\<open>s[:-n]\<close> for a positive \<open>n\<close>.\<close>

definition drop_last :: "nat \<Rightarrow> string \<Rightarrow> string" where
  "drop_last n s = take (length s - n) s"

text \<open>\<^verbatim>\<open>s.split(sep)\<close> for a one-character separator: never an empty list.\<close>

fun split_on :: "char \<Rightarrow> string \<Rightarrow> string list" where
  "split_on sep [] = [[]]"
| "split_on sep (c # cs) =
     (if c = sep then [] # split_on sep cs
      else (case split_on sep cs of
              [] \<Rightarrow> [[c]]
            | w # ws \<Rightarrow> (c # w) # ws))"

text \<open>\<^verbatim>\<open>s.split('/')[-1]\<close>: what follows the last slash.\<close>

definition last_segment :: "string \<Rightarrow> string" where
  "last_segment s = last (split_on (CHR ''/'') s)"

definition basename :: "string \<Rightarrow> string" where
  "basename p = last_segment p"

text \<open>
  \<^verbatim>\<open>posixpath.dirname\<close>: the head up to and including the last slash, with
  its trailing slashes removed unless it consists of slashes only.
\<close>

definition rstrip_slash :: "string \<Rightarrow> string" where
  "rstrip_slash s = rev (dropWhile (\<lambda>c. c = CHR ''/'') (rev s))"

definition dirname :: "string \<Rightarrow> string" where
  "dirname p =
     (let head = take (length p - length (last_segment p)) p
      in if head \<noteq> [] \<and> head \<noteq> replicate (length head) (CHR ''/'')
         then rstrip_slash head else head)"

text \<open>\<^verbatim>\<open>posixpath.join\<close>, two and three arguments.\<close>

definition join2 :: "string \<Rightarrow> string \<Rightarrow> string" where
  "join2 a b =
     (if startswith b ''/'' then b
      else if a = [] \<or> endswith a ''/'' then a @ b
      else a @ ''/'' @ b)"

definition join3 :: "string \<Rightarrow> string \<Rightarrow> string \<Rightarrow> string" where
  "join3 a b c = join2 (join2 a b) c"

definition isabs :: "string \<Rightarrow> bool" where
  "isabs p = startswith p ''/''"

text \<open>
  \<^verbatim>\<open>posixpath.normpath\<close>: empty and \<^verbatim>\<open>.\<close> components are
  dropped, \<^verbatim>\<open>..\<close> removes the component before it (and is kept where
  there is none in a relative path), exactly two leading slashes are kept as two.
\<close>

fun norm_comps :: "bool \<Rightarrow> string list \<Rightarrow> string list \<Rightarrow> string list" where
  "norm_comps rooted acc [] = acc"
| "norm_comps rooted acc (seg # segs) =
     (if seg = [] \<or> seg = ''.'' then norm_comps rooted acc segs
      else if seg \<noteq> ''..'' \<or> (\<not> rooted \<and> acc = []) \<or> (acc \<noteq> [] \<and> last acc = ''..'')
           then norm_comps rooted (acc @ [seg]) segs
      else if acc \<noteq> [] then norm_comps rooted (butlast acc) segs
      else norm_comps rooted acc segs)"

fun join_slash :: "string list \<Rightarrow> string" where
  "join_slash [] = []"
| "join_slash [c] = c"
| "join_slash (c # d # cs) = c @ ''/'' @ join_slash (d # cs)"

definition normpath :: "string \<Rightarrow> string" where
  "normpath path =
     (if path = [] then ''.''
      else
        let initial_slashes =
              (if startswith path ''/'' then
                 (if startswith path ''//'' \<and> \<not> startswith path ''///'' then 2 else 1)
               else (0::nat));
            comps = norm_comps (initial_slashes \<noteq> 0) [] (split_on (CHR ''/'') path);
            joined = replicate initial_slashes (CHR ''/'') @ join_slash comps
        in if joined = [] then ''.'' else joined)"

text \<open>Decimal digits of a natural number, as \<^verbatim>\<open>str(n)\<close> prints them.\<close>

fun string_of_nat :: "nat \<Rightarrow> string" where
  "string_of_nat n =
     (if n < 10 then [''0123456789'' ! n]
      else string_of_nat (n div 10) @ [''0123456789'' ! (n mod 10)])"

declare string_of_nat.simps [simp del]

section \<open>Documents, exceptions and the outside world\<close>

text \<open>A parsed JSON tree, as \<^verbatim>\<open>json.load\<close> returns it.\<close>

datatype json =
    JNull
  | JBool bool
  | JNum int
  | JStr string
  | JArr "json list"
  | JObj "(string \<times> json) list"

text \<open>
  \<^verbatim>\<open>dict.get(key)\<close> on the parsed object: of a repeated key the last
  occurrence is the one the dict holds; a missing key gives \<^verbatim>\<open>None\<close>.
\<close>

definition dict_get :: "(string \<times> json) list \<Rightarrow> string \<Rightarrow> json option" where
  "dict_get kvs k = map_of (rev kvs) k"

text \<open>Python truthiness of the value \<^verbatim>\<open>data.get('@context')\<close>.\<close>

fun truthy :: "json option \<Rightarrow> bool" where
  "truthy None = False"
| "truthy (Some JNull) = False"
| "truthy (Some (JBool b)) = b"
| "truthy (Some (JNum n)) = (n \<noteq> 0)"
| "truthy (Some (JStr s)) = (s \<noteq> [])"
| "truthy (Some (JArr xs)) = (xs \<noteq> [])"
| "truthy (Some (JObj kvs)) = (kvs \<noteq> [])"

text \<open>The name of the Python type of a parsed value, as error messages print it.\<close>

fun type_name :: "json \<Rightarrow> string" where
  "type_name JNull = ''NoneType''"
| "type_name (JBool b) = ''bool''"
| "type_name (JNum n) = ''int''"
| "type_name (JStr s) = ''str''"
| "type_name (JArr xs) = ''list''"
| "type_name (JObj kvs) = ''dict''"

text \<open>
  The exceptions the code meets, all of them subclasses of \<^verbatim>\<open>Exception\<close>.
  \<open>JSONDecodeError msg lineno colno pos\<close> is the parser's located error;
  \<open>UnicodeDecodeError\<close> is what reading a file raises whose bytes are not valid
  UTF-8. The other library exceptions carry the text \<^verbatim>\<open>str(e)\<close> gives.
\<close>

datatype exn =
    JSONDecodeError string nat nat nat
  | FileNotFoundError string
  | UnicodeDecodeError string
  | JsonLdError string
  | ValidationError string "string list"
  | SchemaError string
  | AttributeError string
  | OtherException string

fun exn_str :: "exn \<Rightarrow> string" where
  "exn_str (JSONDecodeError msg lineno colno pos) =
     msg @ '': line '' @ string_of_nat lineno @ '' column '' @ string_of_nat colno
       @ '' (char '' @ string_of_nat pos @ '')''"
| "exn_str (FileNotFoundError s) = s"
| "exn_str (UnicodeDecodeError s) = s"
| "exn_str (JsonLdError s) = s"
| "exn_str (ValidationError msg path) = msg"
| "exn_str (SchemaError msg) = msg"
| "exn_str (AttributeError s) = s"
| "exn_str (OtherException s) = s"

text \<open>What a JSON-LD document loader returns.\<close>

record remote_doc =
  contextUrl :: "string option"
  documentUrl :: string
  document :: json

type_synonym loader = "string \<Rightarrow> exn + remote_doc"

text \<open>
  Everything the validator reads from outside itself: the working directory and the
  script's own location, the file system, and the three libraries it calls (the JSON
  parser behind \<^verbatim>\<open>open\<close> + \<^verbatim>\<open>json.load\<close>, PyLD's
  \<^verbatim>\<open>jsonld.expand\<close> with its document loader, and
  \<^verbatim>\<open>jsonschema.validate\<close>). \<open>py_repr\<close> is Python's formatting of a
  value that is not a string.
\<close>

record world =
  cwd :: string
  script_file :: string
  path_exists :: "string \<Rightarrow> bool"
  isfile :: "string \<Rightarrow> bool"
  isdir :: "string \<Rightarrow> bool"
  glob_recursive :: "string \<Rightarrow> string list"
  load_json :: "string \<Rightarrow> exn + json"
  jsonld_expand :: "json \<Rightarrow> loader \<Rightarrow> exn + unit"
  jsonschema_validate :: "json \<Rightarrow> json \<Rightarrow> exn + unit"
  py_repr :: "json \<Rightarrow> string"

definition abspath :: "world \<Rightarrow> string \<Rightarrow> string" where
  "abspath w p = normpath (join2 (cwd w) p)"

text \<open>An f-string field holding a JSON value: a string prints as itself.\<close>

definition fmt :: "world \<Rightarrow> json \<Rightarrow> string" where
  "fmt w j = (case j of JStr s \<Rightarrow> s | _ \<Rightarrow> py_repr w j)"

section \<open>The syntax checker\<close>

text \<open>
  \<^verbatim>\<open>validate_json_syntax\<close>: the three \<^verbatim>\<open>except\<close> clauses in the
  source's order. The result is a sum so that an exception leaving the function would
  be a value \<open>Inl\<close>.
\<close>

definition validate_json_syntax :: "world \<Rightarrow> string \<Rightarrow> exn + (bool \<times> string)" where
  "validate_json_syntax w file_path =
     (case load_json w file_path of
        Inr doc \<Rightarrow> Inr (True, [])
      | Inl (JSONDecodeError msg lineno colno pos) \<Rightarrow>
          Inr (False, ''Syntax error: '' @ msg @ '' (line '' @ string_of_nat lineno
                        @ '', column '' @ string_of_nat colno @ '')'')
      | Inl (FileNotFoundError s) \<Rightarrow> Inr (False, ''Error: File not found.'')
      | Inl e \<Rightarrow>
          Inr (False, ''An unexpected error occurred during JSON syntax validation: ''
                        @ exn_str e))"

section \<open>The schema locator\<close>

text \<open>
  \<^verbatim>\<open>map_example_to_schema\<close>: \<open>None\<close> is Python's \<^verbatim>\<open>None\<close>.
\<close>

definition map_example_to_schema :: "world \<Rightarrow> string \<Rightarrow> string \<Rightarrow> string option" where
  "map_example_to_schema w example_file_path base_dir =
     (let file_name = basename example_file_path in
      if \<not> (endswith file_name ''_example.json'' \<or> endswith file_name ''_example.jsonld'')
      then None
      else
        let schema_base_name =
              (if endswith file_name ''_example.json''
               then drop_last (length ''_example.json'') file_name
               else drop_last (length ''_example.jsonld'') file_name)
        in if schema_base_name = [] then None
           else
             let schema_file_name = schema_base_name @ ''.schema.json'';
                 schema_path = join3 base_dir ''schemas'' schema_file_name
             in if path_exists w schema_path then Some schema_path else None)"

section \<open>Context resolution and JSON-LD expansion\<close>

definition legacy_prefix :: string where
  "legacy_prefix = ''https://raw.githubusercontent.com/ModelContext/skill-schema/main/contexts/''"

text \<open>
  The tail every loader of the source ends with: read the context file when the chosen
  path exists, raise \<^verbatim>\<open>JsonLdError\<close> with the given message otherwise. A
  failure of \<^verbatim>\<open>open\<close> or \<^verbatim>\<open>json.load\<close> on the context file
  leaves the loader as it is.
\<close>

definition load_local :: "world \<Rightarrow> string \<Rightarrow> string \<Rightarrow> exn + remote_doc" where
  "load_local w local_path msg =
     (if path_exists w local_path then
        (case load_json w local_path of
           Inl e \<Rightarrow> Inl e
         | Inr context_doc \<Rightarrow>
             Inr \<lparr>contextUrl = None,
                  documentUrl = ''file://'' @ abspath w local_path,
                  document = context_doc\<rparr>)
      else Inl (JsonLdError msg))"

text \<open>
  \<^verbatim>\<open>local_document_loader\<close>, the closure of
  \<^verbatim>\<open>validate_jsonld_structure\<close>: the path it settles on, then the loader.
\<close>

definition script_contexts :: "world \<Rightarrow> string \<Rightarrow> string" where
  "script_contexts w name = join2 (join3 (dirname (script_file w)) ''..'' ''contexts'') name"

definition local_path_of :: "world \<Rightarrow> string \<Rightarrow> string \<Rightarrow> string" where
  "local_path_of w file_path url =
     (if startswith url legacy_prefix then script_contexts w (last_segment url)
      else if path_exists w url then url
      else if path_exists w (join2 (dirname file_path) url) then join2 (dirname file_path) url
      else script_contexts w url)"

definition local_document_loader :: "world \<Rightarrow> string \<Rightarrow> loader" where
  "local_document_loader w file_path url =
     load_local w (local_path_of w file_path url)
       (''Context URL '' @ url @ '' could not be resolved to a local file.'')"

text \<open>\<^verbatim>\<open>validate_jsonld_structure\<close>.\<close>

definition validate_jsonld_structure :: "world \<Rightarrow> string \<Rightarrow> exn + (bool \<times> string)" where
  "validate_jsonld_structure w file_path =
     (case validate_json_syntax w file_path of
        Inl e \<Rightarrow> Inl e
      | Inr (is_syntax_valid, syntax_error_message) \<Rightarrow>
          if \<not> is_syntax_valid then Inr (False, syntax_error_message)
          else
            (case (case load_json w file_path of
                     Inl e \<Rightarrow> Inl e
                   | Inr doc \<Rightarrow> jsonld_expand w doc (local_document_loader w file_path)) of
               Inr u \<Rightarrow> Inr (True, [])
             | Inl (JsonLdError s) \<Rightarrow> Inr (False, ''JSON-LD processing error: '' @ s)
             | Inl (FileNotFoundError s) \<Rightarrow>
                 Inr (False, ''Error: File not found (should not happen here).'')
             | Inl e \<Rightarrow>
                 Inr (False, ''An unexpected error occurred during JSON-LD validation: ''
                               @ exn_str e)))"

section \<open>The context conformance checker\<close>

definition PROJECT_ROOT_FOR_CONTEXTS :: "world \<Rightarrow> string" where
  "PROJECT_ROOT_FOR_CONTEXTS w = abspath w (join2 (dirname (script_file w)) ''..'')"

text \<open>The name-to-context table, an \<^verbatim>\<open>if\<close>/\<^verbatim>\<open>elif\<close> chain in the source.\<close>

definition expected_context_name :: "string \<Rightarrow> string option" where
  "expected_context_name file_name =
     (if file_name = ''code_classification_example.json''
        then Some ''code_classification_context.jsonld''
      else if file_name = ''repo_profile_example.json''
        then Some ''repo_profile_context.jsonld''
      else if file_name = ''skill_profile_example.json''
        then Some ''skill_profile_context.jsonld''
      else None)"

definition local_path_for_check :: "world \<Rightarrow> string \<Rightarrow> string \<Rightarrow> string" where
  "local_path_for_check w example_file_path url =
     (if startswith url legacy_prefix
        then join3 (PROJECT_ROOT_FOR_CONTEXTS w) ''contexts'' (last_segment url)
      else if path_exists w url then url
      else if path_exists w (join2 (dirname example_file_path) url)
        then join2 (dirname example_file_path) url
      else join3 (PROJECT_ROOT_FOR_CONTEXTS w) ''contexts'' url)"

definition local_document_loader_for_check :: "world \<Rightarrow> string \<Rightarrow> loader" where
  "local_document_loader_for_check w example_file_path url =
     load_local w (local_path_for_check w example_file_path url)
       (''Context URL '' @ url @ '' could not be resolved to a local file.'')"

text \<open>
  The normalisation of the declared context (source lines 270 to 287); \<open>None\<close> is
  the initial \<^verbatim>\<open>None\<close> that no branch replaced.
\<close>

definition normalized_actual_context_path :: "world \<Rightarrow> string \<Rightarrow> json \<Rightarrow> string option" where
  "normalized_actual_context_path w example_file_path actual_context =
     (case actual_context of
        JStr s \<Rightarrow>
          if isabs s then Some (normpath s)
          else
            let path_relative_to_example = normpath (join2 (dirname example_file_path) s) in
            if path_exists w path_relative_to_example then Some path_relative_to_example
            else
              let path_relative_to_project_contexts =
                    normpath (join3 (PROJECT_ROOT_FOR_CONTEXTS w) ''contexts'' s) in
              if path_exists w path_relative_to_project_contexts
                then Some path_relative_to_project_contexts
              else if startswith s legacy_prefix
                then Some (normpath (join3 (PROJECT_ROOT_FOR_CONTEXTS w) ''contexts''
                                       (last_segment s)))
              else None
      | _ \<Rightarrow> None)"

text \<open>Truthiness of a value that is \<^verbatim>\<open>None\<close> or a string.\<close>

definition truthy_path :: "string option \<Rightarrow> bool" where
  "truthy_path p = (case p of None \<Rightarrow> False | Some s \<Rightarrow> s \<noteq> [])"

definition fmt_path :: "string option \<Rightarrow> string" where
  "fmt_path p = (case p of None \<Rightarrow> ''None'' | Some s \<Rightarrow> s)"

definition local_document_loader_for_mismatch :: "world \<Rightarrow> string option \<Rightarrow> loader" where
  "local_document_loader_for_mismatch w normalized url =
     (let msg = ''Context URL '' @ url
                  @ '' (from actual_context) could not be resolved to a local file for expansion.'';
          actual_path_to_try =
            (if \<not> truthy_path normalized
                  \<and> path_exists w (join3 (PROJECT_ROOT_FOR_CONTEXTS w) ''contexts'' url)
               then Some (join3 (PROJECT_ROOT_FOR_CONTEXTS w) ''contexts'' url)
             else if \<not> truthy_path normalized \<and> path_exists w url then Some url
             else normalized)
      in case actual_path_to_try of
           None \<Rightarrow> Inl (JsonLdError msg)
         | Some p \<Rightarrow> if p = [] then Inl (JsonLdError msg) else load_local w p msg)"

definition local_document_loader_for_expected :: "world \<Rightarrow> loader" where
  "local_document_loader_for_expected w url =
     load_local w
       (if path_exists w url then url
        else join3 (PROJECT_ROOT_FOR_CONTEXTS w) ''contexts'' url)
       (''Context URL '' @ url @ '' (expected) could not be resolved to a local file.'')"

definition mismatch_message :: "world \<Rightarrow> string \<Rightarrow> json \<Rightarrow> string option \<Rightarrow> string" where
  "mismatch_message w expected_local_context_path actual_context normalized =
     ''Context path mismatch: Expected '' @ [CHR 0x27] @ expected_local_context_path
       @ [CHR 0x27] @ '', but found '' @ [CHR 0x27] @ fmt w actual_context @ [CHR 0x27]
       @ '' (resolved to '' @ [CHR 0x27] @ fmt_path normalized @ [CHR 0x27] @ '').''"

text \<open>
  \<^verbatim>\<open>check_context_utilization\<close>. \<^verbatim>\<open>data.get\<close> stands outside
  every \<^verbatim>\<open>try\<close>: on a document whose top level is not an object it raises
  \<^verbatim>\<open>AttributeError\<close>, which leaves the function.
\<close>

definition check_context_utilization :: "world \<Rightarrow> string \<Rightarrow> string \<Rightarrow> exn + (bool \<times> string)" where
  "check_context_utilization w example_file_path base_dir =
     (case validate_json_syntax w example_file_path of
        Inl e \<Rightarrow> Inl e
      | Inr (is_syntax_valid, syntax_error_message) \<Rightarrow>
          if \<not> is_syntax_valid then Inr (False, syntax_error_message)
          else
            (case load_json w example_file_path of
               Inl e \<Rightarrow>
                 Inr (False, ''Error reading example file '' @ example_file_path @ '': ''
                               @ exn_str e)
             | Inr (JObj kvs) \<Rightarrow>
                 (case dict_get kvs ''@context'' of
                    None \<Rightarrow> Inr (False, ''Missing '' @ [CHR 0x27] @ ''@context'' @ [CHR 0x27]
                                           @ '' key in the example file.'')
                  | Some actual_context \<Rightarrow>
                      if \<not> truthy (Some actual_context)
                      then Inr (False, ''Missing '' @ [CHR 0x27] @ ''@context'' @ [CHR 0x27]
                                         @ '' key in the example file.'')
                      else
                        let file_name = basename example_file_path in
                        (case expected_context_name file_name of
                           None \<Rightarrow>
                             (case jsonld_expand w (JObj kvs)
                                     (local_document_loader_for_check w example_file_path) of
                                Inr u \<Rightarrow>
                                  Inr (True,
                                    ''WARNING: No specific expected context mapping for ''
                                      @ file_name
                                      @ ''. Document expanded successfully with provided context ''
                                      @ [CHR 0x27] @ fmt w actual_context @ [CHR 0x27] @ ''.'')
                              | Inl e_expand \<Rightarrow>
                                  Inr (False,
                                    ''WARNING: No specific expected context mapping for ''
                                      @ file_name @ ''. Expansion with provided context ''
                                      @ [CHR 0x27] @ fmt w actual_context @ [CHR 0x27]
                                      @ '' failed: '' @ exn_str e_expand))
                         | Some name \<Rightarrow>
                             let expected_local_context_path =
                                   normpath (join3 (PROJECT_ROOT_FOR_CONTEXTS w) ''contexts'' name);
                                 normalized =
                                   normalized_actual_context_path w example_file_path actual_context
                             in
                             if \<not> truthy_path normalized
                                  \<or> normalized \<noteq> Some expected_local_context_path
                             then
                               let message = mismatch_message w expected_local_context_path
                                               actual_context normalized in
                               (case jsonld_expand w (JObj kvs)
                                       (local_document_loader_for_mismatch w normalized) of
                                  Inr u \<Rightarrow>
                                    Inr (False, message
                                      @ '' However, the document expanded successfully with the provided (mismatched) context.'')
                                | Inl e_expand \<Rightarrow>
                                    Inr (False, message
                                      @ '' Additionally, JSON-LD expansion with the provided (mismatched) context failed: ''
                                      @ exn_str e_expand))
                             else
                               (case jsonld_expand w (JObj kvs)
                                       (local_document_loader_for_expected w) of
                                  Inr u \<Rightarrow> Inr (True, [])
                                | Inl (JsonLdError s) \<Rightarrow>
                                    Inr (False,
                                      ''JSON-LD expansion error (with expected context path ''
                                        @ [CHR 0x27] @ expected_local_context_path @ [CHR 0x27]
                                        @ ''): '' @ s)
                                | Inl e \<Rightarrow>
                                    Inr (False,
                                      ''Unexpected error during JSON-LD expansion (with expected context path ''
                                        @ [CHR 0x27] @ expected_local_context_path @ [CHR 0x27]
                                        @ ''): '' @ exn_str e))))
             | Inr other \<Rightarrow>
                 Inl (AttributeError ([CHR 0x27] @ type_name other @ [CHR 0x27]
                        @ '' object has no attribute '' @ [CHR 0x27] @ ''get'' @ [CHR 0x27]))))"

section \<open>The schema validator\<close>

fun join_arrow :: "string list \<Rightarrow> string" where
  "join_arrow [] = []"
| "join_arrow [c] = c"
| "join_arrow (c # d # cs) = c @ ''->'' @ join_arrow (d # cs)"

definition validate_with_schema :: "world \<Rightarrow> string \<Rightarrow> string \<Rightarrow> exn + (bool \<times> string)" where
  "validate_with_schema w example_file_path schema_file_path =
     (case validate_json_syntax w example_file_path of
        Inl e \<Rightarrow> Inl e
      | Inr (is_syntax_valid, syntax_error_message) \<Rightarrow>
          if \<not> is_syntax_valid then Inr (False, syntax_error_message)
          else
            (case load_json w example_file_path of
               Inl e \<Rightarrow>
                 Inr (False, ''Error reading example file '' @ example_file_path @ '': ''
                               @ exn_str e)
             | Inr example_data \<Rightarrow>
                 (case load_json w schema_file_path of
                    Inl (FileNotFoundError s) \<Rightarrow>
                      Inr (False, ''Schema file not found: '' @ schema_file_path)
                  | Inl (JSONDecodeError msg lineno colno pos) \<Rightarrow>
                      Inr (False, ''Syntax error in schema file '' @ schema_file_path @ '': ''
                                    @ msg @ '' (line '' @ string_of_nat lineno @ '', col ''
                                    @ string_of_nat colno @ '')'')
                  | Inl e \<Rightarrow>
                      Inr (False, ''Error reading schema file '' @ schema_file_path @ '': ''
                                    @ exn_str e)
                  | Inr schema_data \<Rightarrow>
                      (case jsonschema_validate w example_data schema_data of
                         Inr u \<Rightarrow> Inr (True, [])
                       | Inl (ValidationError msg error_path) \<Rightarrow>
                           Inr (False, ''Schema validation error: '' @ msg @ '' (at path: ''
                                         @ [CHR 0x27] @ join_arrow error_path @ [CHR 0x27]
                                         @ '')'')
                       | Inl (SchemaError msg) \<Rightarrow>
                           Inr (False, ''Invalid schema definition in '' @ schema_file_path
                                         @ '': '' @ msg)
                       | Inl e \<Rightarrow>
                           Inr (False,
                             ''An unexpected error occurred during schema validation: ''
                               @ exn_str e)))))"

section \<open>The run orchestrator\<close>

record args =
  paths :: "string list"
  run_syntax :: bool
  run_jsonld :: bool
  run_schema :: bool
  run_context :: bool
  verbose :: bool

text \<open>
  What a run leaves behind: the lines printed (one per \<^verbatim>\<open>print\<close> call), the
  four counters of \<^verbatim>\<open>main\<close>, and the exception that left
  \<^verbatim>\<open>main\<close>, if one did.
\<close>

record run =
  stdout :: "string list"
  total_syntax_errors :: nat
  total_jsonld_errors :: nat
  total_schema_errors :: nat
  total_context_errors :: nat
  raised :: "exn option"

text \<open>
  The script ends with a bare call \<^verbatim>\<open>main()\<close>; nothing in
  \<^verbatim>\<open>main\<close> calls \<^verbatim>\<open>sys.exit\<close>. The interpreter's exit status is
  then 0 when \<^verbatim>\<open>main\<close> returns and 1 when an exception leaves it.
\<close>

definition exit_code :: "run \<Rightarrow> int" where
  "exit_code r = (case raised r of None \<Rightarrow> 0 | Some e \<Rightarrow> 1)"

text \<open>File discovery: the loop over \<^verbatim>\<open>args.paths\<close>, with the warnings it prints.\<close>

fun discover :: "world \<Rightarrow> string list \<Rightarrow> string list \<times> string list" where
  "discover w [] = ([], [])"
| "discover w (path_arg # rest) =
     (let (found, warned) = discover w rest in
      if isfile w path_arg then (abspath w path_arg # found, warned)
      else if isdir w path_arg then
        (glob_recursive w (join2 path_arg ''**/*.json'')
           @ glob_recursive w (join2 path_arg ''**/*.jsonld'') @ found, warned)
      else (found, (''Warning: Path '' @ [CHR 0x27] @ path_arg @ [CHR 0x27]
                      @ '' is not a valid file or directory. Skipping.'') # warned))"

text \<open>The classification of source lines 393 to 398.\<close>

definition is_example :: "string \<Rightarrow> bool" where
  "is_example f =
     (''examples'' \<in> set (split_on (CHR ''/'') (normpath f))
      \<or> contains f ''_example.json'' \<or> contains f ''_example.jsonld'')"

definition is_jsonld :: "string \<Rightarrow> bool" where
  "is_jsonld f = endswith f ''.jsonld''"

text \<open>
  A \<^verbatim>\<open>for\<close> loop over files: each pass adds to the stage's counter and
  prints; an exception ends the loop and everything after it.
\<close>

type_synonym stage = "nat \<times> string list \<times> exn option"

fun run_files :: "(string \<Rightarrow> stage) \<Rightarrow> string list \<Rightarrow> stage" where
  "run_files body [] = (0, [], None)"
| "run_files body (f # fs) =
     (case body f of
        (k, ls, Some e) \<Rightarrow> (k, ls, Some e)
      | (k, ls, None) \<Rightarrow>
          (case run_files body fs of (n, out, r) \<Rightarrow> (k + n, ls @ out, r)))"

definition syntax_body :: "world \<Rightarrow> bool \<Rightarrow> string \<Rightarrow> stage" where
  "syntax_body w vb file_path =
     (case validate_json_syntax w file_path of
        Inl e \<Rightarrow> (0, [], Some e)
      | Inr (is_valid, error_message) \<Rightarrow>
          if \<not> is_valid then (1, [''File: '' @ file_path @ '' - '' @ error_message], None)
          else if vb then (0, [''File: '' @ file_path @ '' - JSON syntax OK.''], None)
          else (0, [], None))"

definition syntax_stage :: "world \<Rightarrow> bool \<Rightarrow> string list \<Rightarrow> stage" where
  "syntax_stage w vb files_to_process =
     (case run_files (syntax_body w vb) files_to_process of
        (n, ls, Some e) \<Rightarrow>
          (n, [CHR 0x0A # ''--- Running Basic JSON Syntax Validation ---''] @ ls, Some e)
      | (n, ls, None) \<Rightarrow>
          (n, [CHR 0x0A # ''--- Running Basic JSON Syntax Validation ---''] @ ls
              @ [if n = 0 then ''All checked files have valid JSON syntax.''
                 else CHR 0x0A # ''Found JSON syntax errors in '' @ string_of_nat n
                        @ '' file(s) during this run.''], None))"

definition jsonld_body :: "world \<Rightarrow> bool \<Rightarrow> string \<Rightarrow> stage" where
  "jsonld_body w vb file_path =
     (case validate_jsonld_structure w file_path of
        Inl e \<Rightarrow> (0, [], Some e)
      | Inr (is_valid, error_message) \<Rightarrow>
          if \<not> is_valid then (1, [''File: '' @ file_path @ '' - '' @ error_message], None)
          else if vb then (0, [''File: '' @ file_path @ '' - JSON-LD structure OK.''], None)
          else (0, [], None))"

definition jsonld_stage :: "world \<Rightarrow> bool \<Rightarrow> string list \<Rightarrow> stage" where
  "jsonld_stage w vb jsonld_files =
     (if jsonld_files = [] then
        (0, [CHR 0x0A # ''--- Running JSON-LD Structure Validation ---'',
             ''No .jsonld files found for JSON-LD structure validation among processed files.''],
         None)
      else
        (case run_files (jsonld_body w vb) jsonld_files of
           (n, ls, Some e) \<Rightarrow>
             (n, [CHR 0x0A # ''--- Running JSON-LD Structure Validation ---''] @ ls, Some e)
         | (n, ls, None) \<Rightarrow>
             (n, [CHR 0x0A # ''--- Running JSON-LD Structure Validation ---''] @ ls
                 @ [if n = 0
                    then ''All checked .jsonld files have valid JSON-LD structure (or only had syntax errors reported above).''
                    else CHR 0x0A # ''Found JSON-LD processing errors in '' @ string_of_nat n
                           @ '' .jsonld file(s).''], None)))"

definition schema_body :: "world \<Rightarrow> bool \<Rightarrow> string \<Rightarrow> stage" where
  "schema_body w vb example_file =
     (let l0 = (if vb then [''Processing example for schema: '' @ example_file] else []);
          skipped =
            (if vb then
               (0, l0 @ [''  File: '' @ example_file
                           @ '' - WARNING (Schema): No corresponding schema found. Skipping.''],
                None)
             else (0, l0, None))
      in case map_example_to_schema w example_file ''.'' of
           None \<Rightarrow> skipped
         | Some schema_file \<Rightarrow>
             if schema_file = [] then skipped
             else
               (let l1 = (if vb then [''  Attempting to validate against schema: ''
                                        @ schema_file] else [])
                in case validate_with_schema w example_file schema_file of
                     Inl e \<Rightarrow> (0, l0 @ l1, Some e)
                   | Inr (is_valid, error_message) \<Rightarrow>
                       if \<not> is_valid then
                         (1, l0 @ l1 @ [''  File: '' @ example_file @ '' - ERROR (Schema): ''
                                          @ error_message], None)
                       else if vb then
                         (0, l0 @ l1 @ [''  File: '' @ example_file
                                          @ '' - SUCCESS (Schema): Validated successfully.''],
                          None)
                       else (0, l0 @ l1, None)))"

definition schema_stage :: "world \<Rightarrow> bool \<Rightarrow> string list \<Rightarrow> stage" where
  "schema_stage w vb example_files =
     (if example_files = [] then
        (0, [CHR 0x0A # ''--- Running Schema Validation for Examples ---'',
             ''No example files found for schema validation among processed files.''], None)
      else
        (case run_files (schema_body w vb) example_files of
           (n, ls, Some e) \<Rightarrow>
             (n, [CHR 0x0A # ''--- Running Schema Validation for Examples ---''] @ ls, Some e)
         | (n, ls, None) \<Rightarrow>
             (n, [CHR 0x0A # ''--- Running Schema Validation for Examples ---''] @ ls
                 @ [if n = 0
                    then ''All processed example files validated successfully against their schemas (or no schema was found/applicable).''
                    else CHR 0x0A # ''Found schema validation errors in '' @ string_of_nat n
                           @ '' example file(s).''], None)))"

definition context_body :: "world \<Rightarrow> bool \<Rightarrow> string \<Rightarrow> stage" where
  "context_body w vb example_file =
     (let l0 = (if vb then [''Processing example for context: '' @ example_file] else [])
      in case check_context_utilization w example_file ''.'' of
           Inl e \<Rightarrow> (0, l0, Some e)
         | Inr (is_valid, message) \<Rightarrow>
             if \<not> is_valid then
               (1, l0 @ [''  File: '' @ example_file @ '' - ERROR (Context): '' @ message], None)
             else if message \<noteq> [] \<and> vb then
               (0, l0 @ [''  File: '' @ example_file @ '' - WARNING (Context): '' @ message],
                None)
             else if vb then
               (0, l0 @ [''  File: '' @ example_file
                           @ '' - SUCCESS (Context): Context utilized correctly.''], None)
             else (0, l0, None))"

definition context_stage :: "world \<Rightarrow> bool \<Rightarrow> string list \<Rightarrow> stage" where
  "context_stage w vb example_files =
     (if example_files = [] then
        (0, [CHR 0x0A # ''--- Running JSON-LD Context Utilization Check for Examples ---'',
             ''No example files found for context utilization check among processed files.''],
         None)
      else
        (case run_files (context_body w vb) example_files of
           (n, ls, Some e) \<Rightarrow>
             (n, [CHR 0x0A # ''--- Running JSON-LD Context Utilization Check for Examples ---'']
                 @ ls, Some e)
         | (n, ls, None) \<Rightarrow>
             (n, [CHR 0x0A # ''--- Running JSON-LD Context Utilization Check for Examples ---'']
                 @ ls
                 @ [if n = 0
                    then ''All processed example files utilize their JSON-LD contexts correctly (or no specific checks applied).''
                    else CHR 0x0A # ''Found context utilization issues in '' @ string_of_nat n
                           @ '' example file(s).''], None)))"

text \<open>
  A stage runs when it is selected and no exception has ended \<^verbatim>\<open>main\<close>
  before it; otherwise it prints and counts nothing.
\<close>

definition when_stage :: "bool \<Rightarrow> exn option \<Rightarrow> stage \<Rightarrow> stage" where
  "when_stage selected prior s = (if selected \<and> prior = None then s else (0, [], prior))"

definition syntax_summary_line :: "nat \<Rightarrow> nat \<Rightarrow> string" where
  "syntax_summary_line errs n =
     ''JSON Syntax Validation: '' @ string_of_nat errs @ '' error(s) found out of ''
       @ string_of_nat n @ '' files checked.''"

definition jsonld_summary_line :: "nat \<Rightarrow> nat \<Rightarrow> string" where
  "jsonld_summary_line errs n =
     ''JSON-LD Structure Validation: '' @ string_of_nat errs @ '' error(s) found out of ''
       @ string_of_nat n @ '' .jsonld files checked.''"

definition schema_summary_line :: "nat \<Rightarrow> nat \<Rightarrow> string" where
  "schema_summary_line errs n =
     ''Schema Validation (Examples): '' @ string_of_nat errs @ '' error(s) found out of ''
       @ string_of_nat n @ '' example files processed for schema checks.''"

definition context_summary_line :: "nat \<Rightarrow> nat \<Rightarrow> string" where
  "context_summary_line errs n =
     ''Context Utilization (Examples): '' @ string_of_nat errs @ '' error(s) found out of ''
       @ string_of_nat n @ '' example files processed for context checks.''"

definition verdict_line :: "bool \<Rightarrow> nat \<Rightarrow> nat \<Rightarrow> nat \<Rightarrow> nat \<Rightarrow> string" where
  "verdict_line checks_were_run e1 e2 e3 e4 =
     (if \<not> checks_were_run then ''No specific validation checks were selected to run.''
      else if e1 = 0 \<and> e2 = 0 \<and> e3 = 0 \<and> e4 = 0
        then CHR 0x0A # ''All selected validations passed successfully for all processed files!''
      else CHR 0x0A # ''Some validations failed. Please review the errors detailed above.'')"

text \<open>The summary block, source lines 494 to 525.\<close>

definition summary ::
  "bool \<Rightarrow> args \<Rightarrow> string list \<Rightarrow> string list \<Rightarrow> string list
     \<Rightarrow> nat \<Rightarrow> nat \<Rightarrow> nat \<Rightarrow> nat \<Rightarrow> string list" where
  "summary run_all_checks a files_to_process jsonld_files example_files e1 e2 e3 e4 =
     [CHR 0x0A # ''--- Validation Process Finished ---'',
      CHR 0x0A # ''--- Validation Summary ---'']
     @ (if run_all_checks \<or> run_syntax a
        then [syntax_summary_line e1 (length files_to_process)] else [])
     @ (if run_all_checks \<or> run_jsonld a
        then [jsonld_summary_line e2 (length jsonld_files)] else [])
     @ (if run_all_checks \<or> run_schema a
        then [schema_summary_line e3 (length example_files)] else [])
     @ (if run_all_checks \<or> run_context a
        then [context_summary_line e4 (length example_files)] else [])
     @ [verdict_line (run_all_checks \<or> run_syntax a \<or> run_jsonld a \<or> run_schema a
                        \<or> run_context a) e1 e2 e3 e4]"

definition preamble :: "world \<Rightarrow> args \<Rightarrow> bool \<Rightarrow> string list" where
  "preamble w a run_all_checks =
     (if verbose a then
        [''Verbose mode enabled.'',
         ''Validating paths: '' @ py_repr w (JArr (map JStr (paths a)))]
        @ (if run_all_checks then [''Running all validation checks.'']
           else (if run_syntax a then [''Syntax check enabled.''] else [])
              @ (if run_jsonld a then [''JSON-LD check enabled.''] else [])
              @ (if run_schema a then [''Schema check enabled.''] else [])
              @ (if run_context a then [''Context check enabled.''] else []))
      else [])"

text \<open>\<^verbatim>\<open>main\<close>, on the parsed command line.\<close>

definition main :: "world \<Rightarrow> args \<Rightarrow> run" where
  "main w a =
     (let run_all_checks = \<not> (run_syntax a \<or> run_jsonld a \<or> run_schema a \<or> run_context a);
          (found, warned) = discover w (paths a);
          files_to_process = sort (remdups found)
      in if files_to_process = [] then
           \<lparr>stdout = preamble w a run_all_checks @ warned
                       @ [''No files found to validate based on the provided paths.''],
            total_syntax_errors = 0, total_jsonld_errors = 0,
            total_schema_errors = 0, total_context_errors = 0, raised = None\<rparr>
         else
           let example_files = filter is_example files_to_process;
               jsonld_files = filter is_jsonld files_to_process
           in case when_stage (run_all_checks \<or> run_syntax a) None
                     (syntax_stage w (verbose a) files_to_process) of
                (e1, out1, r1) \<Rightarrow>
              (case when_stage (run_all_checks \<or> run_jsonld a) r1
                      (jsonld_stage w (verbose a) jsonld_files) of
                (e2, out2, r2) \<Rightarrow>
              (case when_stage (run_all_checks \<or> run_schema a) r2
                      (schema_stage w (verbose a) example_files) of
                (e3, out3, r3) \<Rightarrow>
              (case when_stage (run_all_checks \<or> run_context a) r3
                      (context_stage w (verbose a) example_files) of
                (e4, out4, r4) \<Rightarrow>
                  \<lparr>stdout = preamble w a run_all_checks @ warned @ out1 @ out2 @ out3 @ out4
                             @ (if r4 = None
                                then summary run_all_checks a files_to_process jsonld_files
                                       example_files e1 e2 e3 e4
                                else []),
                   total_syntax_errors = e1, total_jsonld_errors = e2,
                   total_schema_errors = e3, total_context_errors = e4, raised = r4\<rparr>))))"

section \<open>Concrete worlds\<close>

text \<open>
  A small expansion engine for concrete runs: it resolves a string \<^verbatim>\<open>@context\<close>
  through the document loader it is given and fails exactly when the loader does.
\<close>

definition expand_by_loader :: "json \<Rightarrow> loader \<Rightarrow> exn + unit" where
  "expand_by_loader doc ld =
     (case doc of
        JObj kvs \<Rightarrow>
          (case dict_get kvs ''@context'' of
             Some (JStr url) \<Rightarrow>
               (case ld url of
                  Inl e \<Rightarrow> Inl (JsonLdError (''loading remote context failed: '' @ exn_str e))
                | Inr d \<Rightarrow> Inr ())
           | _ \<Rightarrow> Inr ())
      | _ \<Rightarrow> Inr ())"

text \<open>
  A file system given as a table from absolute, normalised paths to what opening and
  parsing the file yields; a path is looked up from the working directory.
\<close>

definition fs_world :: "string \<Rightarrow> string \<Rightarrow> (string \<times> (exn + json)) list \<Rightarrow> world" where
  "fs_world dir script files =
     \<lparr>cwd = dir, script_file = script,
      path_exists = (\<lambda>p. normpath (join2 dir p) \<in> set (map fst files)),
      isfile = (\<lambda>p. normpath (join2 dir p) \<in> set (map fst files)),
      isdir = (\<lambda>p. False),
      glob_recursive = (\<lambda>p. []),
      load_json = (\<lambda>p. case map_of files (normpath (join2 dir p)) of
                          Some r \<Rightarrow> r
                        | None \<Rightarrow> Inl (FileNotFoundError p)),
      jsonld_expand = expand_by_loader,
      jsonschema_validate = (\<lambda>inst sch. Inr ()),
      py_repr = (\<lambda>j. ''<value>'')\<rparr>"

text \<open>The text of the exception that reading a non-UTF-8 file raises.\<close>

definition utf8_error_text :: string where
  "utf8_error_text = [CHR 0x27] @ ''utf-8'' @ [CHR 0x27] @ '' codec can'' @ [CHR 0x27]
     @ ''t decode byte 0xff in position 0: invalid start byte''"

definition bad_json_world :: world where
  "bad_json_world = fs_world ''/repo'' ''/repo/scripts/validator.py''
     [(''/repo/examples/broken.json'', Inl (JSONDecodeError ''Expecting value'' 3 14 40)),
      (''/repo/examples/latin1.json'',
         Inl (UnicodeDecodeError utf8_error_text)),
      (''/repo/examples/fine.json'', Inr (JObj [(''name'', JStr ''x'')]))]"

definition dot_schema_world :: world where
  "dot_schema_world = fs_world ''/repo'' ''/repo/scripts/validator.py''
     [(''/repo/examples/_example.json'', Inr (JObj [])),
      (''/repo/schemas/.schema.json'', Inr (JObj []))]"

definition foo_schema_world :: world where
  "foo_schema_world = fs_world ''/repo'' ''/repo/scripts/validator.py''
     [(''/repo/examples/foo_example.json'', Inr (JObj [])),
      (''/repo/examples/_example.jsonld'', Inr (JObj [])),
      (''/repo/schemas/foo.schema.json'', Inr (JObj []))]"

definition ctx_world :: world where
  "ctx_world = fs_world ''/repo'' ''/repo/scripts/validator.py''
     [(''/repo/contexts/skill_profile_context.jsonld'', Inr (JObj [(''@context'', JObj [(''skill'', JStr ''http://example.org/skill'')])])),
      (''/repo/contexts/repo_profile_context.jsonld'', Inr (JObj [(''@context'', JObj [(''repo'', JStr ''http://example.org/repo'')])])),
      (''/repo/contexts/ctx.jsonld'', Inr (JObj [(''@context'', JObj [(''from'', JStr ''contexts-root'')])])),
      (''/repo/ctx.jsonld'', Inr (JObj [(''@context'', JObj [(''from'', JStr ''working-directory'')])])),
      (''/repo/examples/skill_profile_example.json'',
         Inr (JObj [(''@context'', JStr ''../contexts/repo_profile_context.jsonld''), (''skill'', JStr ''x'')])),
      (''/repo/examples/code_classification_example.json'',
         Inr (JObj [(''@context'', JStr ''nowhere.jsonld'')])),
      (''/repo/examples/repo_profile_example.json'',
         Inr (JObj [(''@context'', JObj [(''repo'', JStr ''http://example.org/repo'')])])),
      (''/repo/examples/other_example.json'',
         Inr (JObj [(''@context'', JStr ''missing_context.jsonld'')])),
      (''/repo/examples/extra_example.json'',
         Inr (JObj [(''@context'', JStr ''../contexts/skill_profile_context.jsonld'')]))]"

definition context_only :: "string list \<Rightarrow> args" where
  "context_only ps = \<lparr>paths = ps, run_syntax = False, run_jsonld = False,
                        run_schema = False, run_context = True, verbose = False\<rparr>"

text \<open>A JSON file in a directory whose name contains an example suffix.\<close>

definition odd_dir_world :: world where
  "odd_dir_world = fs_world ''/data'' ''/repo/scripts/validator.py''
     [(''/data/old_example.json.d/a.json'', Inr (JObj [(''name'', JStr ''x'')]))]"

text \<open>
  A run from inside the examples directory with the argument \<^verbatim>\<open>.\<close>:
  \<^verbatim>\<open>glob\<close> returns paths that begin with the argument as given.
\<close>

definition glob_world :: world where
  "glob_world =
     \<lparr>cwd = ''/repo/examples'', script_file = ''/repo/scripts/validator.py'',
      path_exists = (\<lambda>p. p \<in> {''.'', ''./notes.json'', ''notes.json''}),
      isfile = (\<lambda>p. p \<in> {''./notes.json'', ''notes.json''}),
      isdir = (\<lambda>p. p = ''.''),
      glob_recursive = (\<lambda>pat. if pat = ''./**/*.json'' then [''./notes.json''] else []),
      load_json = (\<lambda>p. if p \<in> {''./notes.json'', ''notes.json''} then Inr (JObj [])
                        else Inl (FileNotFoundError p)),
      jsonld_expand = expand_by_loader,
      jsonschema_validate = (\<lambda>inst sch. Inr ()),
      py_repr = (\<lambda>j. ''<value>'')\<rparr>"

text \<open>
  The sorted, duplicate-free file list of a run (\<^verbatim>\<open>files_to_process\<close>), and
  command lines that select one check.
\<close>

definition discovered :: "world \<Rightarrow> args \<Rightarrow> string list" where
  "discovered w a = sort (remdups (fst (discover w (paths a))))"

definition syntax_only :: "string list \<Rightarrow> args" where
  "syntax_only ps = \<lparr>paths = ps, run_syntax = True, run_jsonld = False,
                       run_schema = False, run_context = False, verbose = False\<rparr>"

definition all_checks :: "string list \<Rightarrow> args" where
  "all_checks ps = \<lparr>paths = ps, run_syntax = False, run_jsonld = False,
                      run_schema = False, run_context = False, verbose = False\<rparr>"

definition schema_only :: "string list \<Rightarrow> args" where
  "schema_only ps = \<lparr>paths = ps, run_syntax = False, run_jsonld = False,
                       run_schema = True, run_context = False, verbose = False\<rparr>"

section \<open>The specification's wording, for comparison\<close>

text \<open>
  The schema locator as the specification words it: two ways to have no binding (no
  recognised suffix, no schema file at the derived path), the derived path otherwise.
\<close>

definition spec_schema_locator :: "world \<Rightarrow> string \<Rightarrow> string \<Rightarrow> string option" where
  "spec_schema_locator w example_file_path base_dir =
     (let file_name = basename example_file_path in
      if endswith file_name ''_example.json'' then
        (let p = join3 base_dir ''schemas''
                   (drop_last (length ''_example.json'') file_name @ ''.schema.json'')
         in if path_exists w p then Some p else None)
      else if endswith file_name ''_example.jsonld'' then
        (let p = join3 base_dir ''schemas''
                   (drop_last (length ''_example.jsonld'') file_name @ ''.schema.json'')
         in if path_exists w p then Some p else None)
      else None)"

text \<open>
  The classification as the specification words it: a segment \<^verbatim>\<open>examples\<close>
  in the resolved absolute path, or a file name ending in an example suffix.
\<close>

definition spec_is_example :: "world \<Rightarrow> string \<Rightarrow> bool" where
  "spec_is_example w f =
     (''examples'' \<in> set (split_on (CHR ''/'') (abspath w f))
      \<or> endswith (basename f) ''_example.json'' \<or> endswith (basename f) ''_example.jsonld'')"

section \<open>Facts about strings and paths\<close>

lemmas path_eval = normpath_def join2_def join3_def startswith_def endswith_def
  basename_def last_segment_def drop_last_def dirname_def rstrip_slash_def

lemma endswith_iff: "endswith s suf \<longleftrightarrow> (\<exists>stem. s = stem @ suf)"
  unfolding endswith_def
  by (metis append_eq_conv_conj append_take_drop_id diff_add_inverse2 le_add2 length_append)

lemma drop_last_append: "drop_last (length suf) (stem @ suf) = stem"
  by (simp add: drop_last_def)

lemma suffixes_differ: "stem @ ''_example.json'' \<noteq> stem' @ ''_example.jsonld''"
proof
  assume "stem @ ''_example.json'' = stem' @ ''_example.jsonld''"
  then have "last (stem @ ''_example.json'') = last (stem' @ ''_example.jsonld'')" by simp
  then show False by simp
qed

lemma not_endswith_both:
  "endswith (stem @ ''_example.jsonld'') ''_example.json'' = False"
  using suffixes_differ by (auto simp: endswith_iff)

lemma dsw_basename: "basename ''examples/_example.json'' = ''_example.json''"
  by (simp add: path_eval)

section \<open>The syntax checker is total\<close>

text \<open>
  C6, as the code has it. Whatever opening and parsing the file does,
  \<^verbatim>\<open>validate_json_syntax\<close> returns a pair and raises nothing. A parsed
  document gives success with an empty message. A syntax error located by the parser
  (\<^verbatim>\<open>JSONDecodeError\<close>) gives a failure whose message carries the parser's
  line and column. A missing file gives the fixed not-found message. Every other
  failure, such as bytes that are not valid UTF-8, gives a failure whose message is the
  fixed prefix followed by the exception's own text: no line or column is added to it.
\<close>

theorem validate_json_syntax_total:
  "(\<exists>ok msg. validate_json_syntax w file_path = Inr (ok, msg))
   \<and> (\<forall>msg lineno colno pos.
        load_json w file_path = Inl (JSONDecodeError msg lineno colno pos) \<longrightarrow>
        validate_json_syntax w file_path =
          Inr (False, ''Syntax error: '' @ msg @ '' (line '' @ string_of_nat lineno
                        @ '', column '' @ string_of_nat colno @ '')''))
   \<and> (\<forall>doc. load_json w file_path = Inr doc \<longrightarrow>
        validate_json_syntax w file_path = Inr (True, []))
   \<and> (\<forall>s. load_json w file_path = Inl (FileNotFoundError s) \<longrightarrow>
        validate_json_syntax w file_path = Inr (False, ''Error: File not found.''))
   \<and> (\<forall>e. load_json w file_path = Inl e
            \<and> (\<forall>msg lineno colno pos. e \<noteq> JSONDecodeError msg lineno colno pos)
            \<and> (\<forall>s. e \<noteq> FileNotFoundError s) \<longrightarrow>
        validate_json_syntax w file_path =
          Inr (False, ''An unexpected error occurred during JSON syntax validation: ''
                        @ exn_str e))"
proof (intro conjI allI impI)
  show "\<exists>ok msg. validate_json_syntax w file_path = Inr (ok, msg)"
    by (auto simp: validate_json_syntax_def split: sum.splits exn.splits)
next
  fix msg lineno colno pos
  assume "load_json w file_path = Inl (JSONDecodeError msg lineno colno pos)"
  then show "validate_json_syntax w file_path =
          Inr (False, ''Syntax error: '' @ msg @ '' (line '' @ string_of_nat lineno
                        @ '', column '' @ string_of_nat colno @ '')'')"
    by (simp add: validate_json_syntax_def)
next
  fix doc
  assume "load_json w file_path = Inr doc"
  then show "validate_json_syntax w file_path = Inr (True, [])"
    by (simp add: validate_json_syntax_def)
next
  fix s
  assume "load_json w file_path = Inl (FileNotFoundError s)"
  then show "validate_json_syntax w file_path = Inr (False, ''Error: File not found.'')"
    by (simp add: validate_json_syntax_def)
next
  fix e
  assume "load_json w file_path = Inl e
            \<and> (\<forall>msg lineno colno pos. e \<noteq> JSONDecodeError msg lineno colno pos)
            \<and> (\<forall>s. e \<noteq> FileNotFoundError s)"
  then show "validate_json_syntax w file_path =
          Inr (False, ''An unexpected error occurred during JSON syntax validation: ''
                        @ exn_str e)"
    by (cases e) (simp_all add: validate_json_syntax_def)
qed

lemma bad_json_loads:
  "load_json bad_json_world ''examples/broken.json''
     = Inl (JSONDecodeError ''Expecting value'' 3 14 40)"
  "load_json bad_json_world ''examples/missing.json''
     = Inl (FileNotFoundError ''examples/missing.json'')"
  "load_json bad_json_world ''examples/latin1.json''
     = Inl (UnicodeDecodeError utf8_error_text)"
  "load_json bad_json_world ''examples/fine.json'' = Inr (JObj [(''name'', JStr ''x'')])"
  by (simp_all add: bad_json_world_def fs_world_def normpath_def join2_def startswith_def
        endswith_def)

theorem validate_json_syntax_total_witness:
  "validate_json_syntax bad_json_world ''examples/broken.json''
       = Inr (False, ''Syntax error: Expecting value (line 3, column 14)'')
   \<and> validate_json_syntax bad_json_world ''examples/missing.json''
       = Inr (False, ''Error: File not found.'')
   \<and> validate_json_syntax bad_json_world ''examples/fine.json'' = Inr (True, [])
   \<and> validate_json_syntax bad_json_world ''examples/latin1.json''
       = Inr (False, ''An unexpected error occurred during JSON syntax validation: ''
                @ utf8_error_text)"
proof -
  have a: "validate_json_syntax bad_json_world ''examples/broken.json''
       = Inr (False, ''Syntax error: Expecting value (line 3, column 14)'')"
    using validate_json_syntax_total [of bad_json_world "''examples/broken.json''"]
      bad_json_loads(1)
    by (simp add: string_of_nat.simps)
  have b: "validate_json_syntax bad_json_world ''examples/missing.json''
       = Inr (False, ''Error: File not found.'')"
    using validate_json_syntax_total [of bad_json_world "''examples/missing.json''"]
      bad_json_loads(2)
    by simp
  have c: "validate_json_syntax bad_json_world ''examples/fine.json'' = Inr (True, [])"
    using validate_json_syntax_total [of bad_json_world "''examples/fine.json''"]
      bad_json_loads(4)
    by simp
  have d: "validate_json_syntax bad_json_world ''examples/latin1.json''
       = Inr (False, ''An unexpected error occurred during JSON syntax validation: ''
                @ utf8_error_text)"
    using validate_json_syntax_total [of bad_json_world "''examples/latin1.json''"]
      bad_json_loads(3)
    by simp
  from a b c d show ?thesis by blast
qed

text \<open>
  The claim as worded fails at a file whose bytes are not valid UTF-8: reading it
  raises \<^verbatim>\<open>UnicodeDecodeError\<close> inside \<^verbatim>\<open>json.load\<close>, the
  catch-all clause answers, and the message names neither a line nor a column.
\<close>

theorem syntax_location_counterexample:
  "load_json bad_json_world ''examples/latin1.json''
     = Inl (UnicodeDecodeError utf8_error_text)
   \<and> validate_json_syntax bad_json_world ''examples/latin1.json''
       = Inr (False, ''An unexpected error occurred during JSON syntax validation: ''
                @ utf8_error_text)
   \<and> \<not> contains (snd (projr (validate_json_syntax bad_json_world ''examples/latin1.json'')))
          ''line''
   \<and> \<not> contains (snd (projr (validate_json_syntax bad_json_world ''examples/latin1.json'')))
          ''column''"
proof -
  have v: "validate_json_syntax bad_json_world ''examples/latin1.json''
       = Inr (False, ''An unexpected error occurred during JSON syntax validation: ''
                @ utf8_error_text)"
    by (simp add: validate_json_syntax_def bad_json_loads(3))
  have n: "\<not> contains (''An unexpected error occurred during JSON syntax validation: ''
                @ utf8_error_text) ''line''"
    "\<not> contains (''An unexpected error occurred during JSON syntax validation: ''
                @ utf8_error_text) ''column''"
    by (simp_all add: startswith_def utf8_error_text_def)
  from v n bad_json_loads(3) show ?thesis by simp
qed

section \<open>The schema locator\<close>

text \<open>
  C7, as the code has it. \<^verbatim>\<open>map_example_to_schema\<close> returns no binding in
  three cases, not two: the base name ends in neither example suffix; the base name is
  one of the suffixes itself, so that the stem is empty; or the stem is not empty and
  \<^verbatim>\<open>base_dir/schemas/<stem>.schema.json\<close> does not exist. In the one case
  left it returns that derived path.
\<close>

theorem map_example_to_schema_cases:
  "(\<not> (endswith (basename p) ''_example.json'' \<or> endswith (basename p) ''_example.jsonld'')
      \<longrightarrow> map_example_to_schema w p b = None)
   \<and> (basename p = ''_example.json'' \<or> basename p = ''_example.jsonld''
      \<longrightarrow> map_example_to_schema w p b = None)
   \<and> (\<forall>stem suf. stem \<noteq> [] \<and> (suf = ''_example.json'' \<or> suf = ''_example.jsonld'')
         \<and> basename p = stem @ suf \<longrightarrow>
       map_example_to_schema w p b =
         (if path_exists w (join3 b ''schemas'' (stem @ ''.schema.json''))
          then Some (join3 b ''schemas'' (stem @ ''.schema.json'')) else None))"
proof (intro conjI allI impI)
  assume "\<not> (endswith (basename p) ''_example.json'' \<or> endswith (basename p) ''_example.jsonld'')"
  then show "map_example_to_schema w p b = None"
    by (simp add: map_example_to_schema_def)
next
  assume "basename p = ''_example.json'' \<or> basename p = ''_example.jsonld''"
  then show "map_example_to_schema w p b = None"
    by (auto simp: map_example_to_schema_def endswith_def drop_last_def)
next
  fix stem suf
  assume h: "stem \<noteq> [] \<and> (suf = ''_example.json'' \<or> suf = ''_example.jsonld'')
             \<and> basename p = stem @ suf"
  then consider "basename p = stem @ ''_example.json''" | "basename p = stem @ ''_example.jsonld''"
    by auto
  then show "map_example_to_schema w p b =
         (if path_exists w (join3 b ''schemas'' (stem @ ''.schema.json''))
          then Some (join3 b ''schemas'' (stem @ ''.schema.json'')) else None)"
  proof cases
    case 1
    have e: "endswith (stem @ ''_example.json'') ''_example.json''"
      by (auto simp: endswith_iff)
    have d: "drop_last (length ''_example.json'') (stem @ ''_example.json'') = stem"
      by (rule drop_last_append)
    from h 1 e d show ?thesis
      by (simp add: map_example_to_schema_def Let_def)
  next
    case 2
    have e: "endswith (stem @ ''_example.jsonld'') ''_example.jsonld''"
      by (auto simp: endswith_iff)
    have d: "drop_last (length ''_example.jsonld'') (stem @ ''_example.jsonld'') = stem"
      by (rule drop_last_append)
    from h 2 e d not_endswith_both [of stem] show ?thesis
      by (simp add: map_example_to_schema_def Let_def)
  qed
qed

text \<open>
  The claim as worded fails at a file named \<^verbatim>\<open>_example.json\<close> beside an
  existing \<^verbatim>\<open>schemas/.schema.json\<close>: the suffix is recognised and the derived
  path exists, yet the code returns no binding.
\<close>

theorem map_example_to_schema_counterexample:
  "endswith (basename ''examples/_example.json'') ''_example.json''
   \<and> path_exists dot_schema_world (join3 ''.'' ''schemas''
        (drop_last (length ''_example.json'') (basename ''examples/_example.json'')
           @ ''.schema.json''))
   \<and> map_example_to_schema dot_schema_world ''examples/_example.json'' ''.'' = None
   \<and> spec_schema_locator dot_schema_world ''examples/_example.json'' ''.''
        = Some ''./schemas/.schema.json''"
  by (simp add: map_example_to_schema_def spec_schema_locator_def dot_schema_world_def
        fs_world_def path_eval)

theorem map_example_to_schema_cases_witness:
  "\<not> (endswith (basename ''examples/notes.json'') ''_example.json''
        \<or> endswith (basename ''examples/notes.json'') ''_example.jsonld'')
   \<and> map_example_to_schema foo_schema_world ''examples/notes.json'' ''.'' = None
   \<and> basename ''examples/_example.jsonld'' = ''_example.jsonld''
   \<and> map_example_to_schema foo_schema_world ''examples/_example.jsonld'' ''.'' = None
   \<and> basename ''examples/foo_example.json'' = ''foo'' @ ''_example.json''
   \<and> map_example_to_schema foo_schema_world ''examples/foo_example.json'' ''.''
        = Some ''./schemas/foo.schema.json''
   \<and> basename ''examples/bar_example.jsonld'' = ''bar'' @ ''_example.jsonld''
   \<and> map_example_to_schema foo_schema_world ''examples/bar_example.jsonld'' ''.'' = None"
proof -
  have b1: "\<not> (endswith (basename ''examples/notes.json'') ''_example.json''
        \<or> endswith (basename ''examples/notes.json'') ''_example.jsonld'')"
    by (simp add: path_eval)
  have b2: "basename ''examples/_example.jsonld'' = ''_example.jsonld''"
    by (simp add: path_eval)
  have b3: "basename ''examples/foo_example.json'' = ''foo'' @ ''_example.json''"
    by (simp add: path_eval)
  have b4: "basename ''examples/bar_example.jsonld'' = ''bar'' @ ''_example.jsonld''"
    by (simp add: path_eval)
  have e3: "path_exists foo_schema_world (join3 ''.'' ''schemas'' (''foo'' @ ''.schema.json''))"
    by (simp add: foo_schema_world_def fs_world_def path_eval)
  have e4: "\<not> path_exists foo_schema_world (join3 ''.'' ''schemas'' (''bar'' @ ''.schema.json''))"
    by (simp add: foo_schema_world_def fs_world_def path_eval)
  have j3: "join3 ''.'' ''schemas'' (''foo'' @ ''.schema.json'') = ''./schemas/foo.schema.json''"
    by (simp add: path_eval)
  from map_example_to_schema_cases [of "''examples/notes.json''" foo_schema_world "''.''"] b1
  have r1: "map_example_to_schema foo_schema_world ''examples/notes.json'' ''.'' = None"
    by blast
  from map_example_to_schema_cases [of "''examples/_example.jsonld''" foo_schema_world "''.''"] b2
  have r2: "map_example_to_schema foo_schema_world ''examples/_example.jsonld'' ''.'' = None"
    by blast
  from map_example_to_schema_cases [of "''examples/foo_example.json''" foo_schema_world "''.''"]
  have "''foo'' \<noteq> [] \<and> (''_example.json'' = ''_example.json'' \<or> ''_example.json'' = ''_example.jsonld'')
         \<and> basename ''examples/foo_example.json'' = ''foo'' @ ''_example.json'' \<longrightarrow>
       map_example_to_schema foo_schema_world ''examples/foo_example.json'' ''.'' =
         (if path_exists foo_schema_world (join3 ''.'' ''schemas'' (''foo'' @ ''.schema.json''))
          then Some (join3 ''.'' ''schemas'' (''foo'' @ ''.schema.json'')) else None)"
    by blast
  with b3 e3 j3
  have r3: "map_example_to_schema foo_schema_world ''examples/foo_example.json'' ''.''
        = Some ''./schemas/foo.schema.json''"
    by simp
  from map_example_to_schema_cases [of "''examples/bar_example.jsonld''" foo_schema_world "''.''"]
  have "''bar'' \<noteq> [] \<and> (''_example.jsonld'' = ''_example.json'' \<or> ''_example.jsonld'' = ''_example.jsonld'')
         \<and> basename ''examples/bar_example.jsonld'' = ''bar'' @ ''_example.jsonld'' \<longrightarrow>
       map_example_to_schema foo_schema_world ''examples/bar_example.jsonld'' ''.'' =
         (if path_exists foo_schema_world (join3 ''.'' ''schemas'' (''bar'' @ ''.schema.json''))
          then Some (join3 ''.'' ''schemas'' (''bar'' @ ''.schema.json'')) else None)"
    by blast
  with b4 e4
  have r4: "map_example_to_schema foo_schema_world ''examples/bar_example.jsonld'' ''.'' = None"
    by simp
  from b1 b2 b3 b4 r1 r2 r3 r4 show ?thesis by blast
qed

text \<open>
  C10. A file named exactly \<^verbatim>\<open>_example.json\<close> or
  \<^verbatim>\<open>_example.jsonld\<close> has an empty stem, and the locator returns no binding
  for it, whatever the schema directory holds.
\<close>

theorem empty_stem_no_binding:
  "basename p = ''_example.json'' \<or> basename p = ''_example.jsonld''
     \<Longrightarrow> map_example_to_schema w p b = None"
  by (auto simp: map_example_to_schema_def endswith_def drop_last_def)

theorem empty_stem_no_binding_witness:
  "basename ''examples/_example.json'' = ''_example.json''
   \<and> path_exists dot_schema_world ''./schemas/.schema.json''
   \<and> map_example_to_schema dot_schema_world ''examples/_example.json'' ''.'' = None"
proof -
  have b: "basename ''examples/_example.json'' = ''_example.json''" by (rule dsw_basename)
  have e: "path_exists dot_schema_world ''./schemas/.schema.json''"
    by (simp add: dot_schema_world_def fs_world_def path_eval)
  from empty_stem_no_binding [of "''examples/_example.json''" dot_schema_world "''.''"] b e
  show ?thesis by simp
qed

lemmas world_eval = ctx_world_def fs_world_def PROJECT_ROOT_FOR_CONTEXTS_def abspath_def
  script_contexts_def legacy_prefix_def load_local_def

section \<open>Context resolution order\<close>

lemma join2_nonempty: "a \<noteq> [] \<Longrightarrow> join2 a b \<noteq> []"
  by (auto simp: join2_def startswith_def)

lemma join3_contexts_nonempty: "join3 a ''contexts'' b \<noteq> []"
proof -
  have "join2 a ''contexts'' \<noteq> []"
    by (simp add: join2_def startswith_def)
  then show ?thesis unfolding join3_def by (rule join2_nonempty)
qed

lemma load_local_missing:
  "\<not> path_exists w p \<Longrightarrow> load_local w p msg = Inl (JsonLdError msg)"
  by (simp add: load_local_def)

lemma load_local_present:
  "path_exists w p \<Longrightarrow> load_json w p = Inr d \<Longrightarrow>
   load_local w p msg = Inr \<lparr>contextUrl = None, documentUrl = ''file://'' @ abspath w p, document = d\<rparr>"
  by (simp add: load_local_def)

text \<open>
  C5, as the code has it. The two general resolvers (the closure of
  \<^verbatim>\<open>validate_jsonld_structure\<close> and the one of the unmapped branch of
  \<^verbatim>\<open>check_context_utilization\<close>) try their rules in one fixed order, first
  match first: a reference with the legacy prefix is looked up under the contexts
  directory by its last \<^verbatim>\<open>/\<close>-separated segment (not by what is left after
  the prefix); otherwise an existing path is used as it is, whether or not the contexts
  directory has a file of that name; otherwise the reference beside the referencing
  document, if that exists; otherwise the reference under the contexts directory. The
  two other loaders of \<^verbatim>\<open>check_context_utilization\<close> are shorter chains
  without a legacy-prefix rule and without a document-relative rule: in the mismatch
  branch the loader takes the normalised path of the declared context when there is
  one, otherwise the reference under the contexts directory if that exists, otherwise
  the reference as an existing path; in the matching branch the loader takes the
  reference as an existing path, otherwise the reference under the contexts directory.
  In all four a chosen path that does not exist gives the error that names the
  original reference.
\<close>

theorem resolution_order:
  fixes w :: world and doc url :: string and normalized :: "string option"
  defines "msg \<equiv> ''Context URL '' @ url @ '' could not be resolved to a local file.''"
  defines "msg_mismatch \<equiv> ''Context URL '' @ url
     @ '' (from actual_context) could not be resolved to a local file for expansion.''"
  defines "msg_expected \<equiv> ''Context URL '' @ url
     @ '' (expected) could not be resolved to a local file.''"
  defines "root \<equiv> (\<lambda>name. join3 (PROJECT_ROOT_FOR_CONTEXTS w) ''contexts'' name)"
  defines "near \<equiv> join2 (dirname doc) url"
  shows
  "(startswith url legacy_prefix \<longrightarrow>
      local_document_loader_for_check w doc url = load_local w (root (last_segment url)) msg
      \<and> local_document_loader w doc url = load_local w (script_contexts w (last_segment url)) msg)
   \<and> (\<not> startswith url legacy_prefix \<and> path_exists w url \<longrightarrow>
      local_document_loader_for_check w doc url = load_local w url msg
      \<and> local_document_loader w doc url = load_local w url msg)
   \<and> (\<not> startswith url legacy_prefix \<and> \<not> path_exists w url \<and> path_exists w near \<longrightarrow>
      local_document_loader_for_check w doc url = load_local w near msg
      \<and> local_document_loader w doc url = load_local w near msg)
   \<and> (\<not> startswith url legacy_prefix \<and> \<not> path_exists w url \<and> \<not> path_exists w near \<longrightarrow>
      local_document_loader_for_check w doc url = load_local w (root url) msg
      \<and> local_document_loader w doc url = load_local w (script_contexts w url) msg)
   \<and> (\<forall>p. normalized = Some p \<and> p \<noteq> [] \<longrightarrow>
      local_document_loader_for_mismatch w normalized url = load_local w p msg_mismatch)
   \<and> (\<not> truthy_path normalized \<and> path_exists w (root url) \<longrightarrow>
      local_document_loader_for_mismatch w normalized url = load_local w (root url) msg_mismatch)
   \<and> (\<not> truthy_path normalized \<and> \<not> path_exists w (root url) \<and> path_exists w url
        \<and> url \<noteq> [] \<longrightarrow>
      local_document_loader_for_mismatch w normalized url = load_local w url msg_mismatch)
   \<and> (\<not> truthy_path normalized \<and> \<not> path_exists w (root url)
        \<and> (\<not> path_exists w url \<or> url = []) \<longrightarrow>
      local_document_loader_for_mismatch w normalized url = Inl (JsonLdError msg_mismatch))
   \<and> (path_exists w url \<longrightarrow>
      local_document_loader_for_expected w url = load_local w url msg_expected)
   \<and> (\<not> path_exists w url \<longrightarrow>
      local_document_loader_for_expected w url = load_local w (root url) msg_expected)
   \<and> (\<forall>p m. \<not> path_exists w p \<longrightarrow> load_local w p m = Inl (JsonLdError m))
   \<and> (\<forall>p m d. path_exists w p \<and> load_json w p = Inr d \<longrightarrow>
        load_local w p m
          = Inr \<lparr>contextUrl = None, documentUrl = ''file://'' @ abspath w p, document = d\<rparr>)"
proof -
  have general:
    "(startswith url legacy_prefix \<longrightarrow>
      local_document_loader_for_check w doc url = load_local w (root (last_segment url)) msg
      \<and> local_document_loader w doc url = load_local w (script_contexts w (last_segment url)) msg)
   \<and> (\<not> startswith url legacy_prefix \<and> path_exists w url \<longrightarrow>
      local_document_loader_for_check w doc url = load_local w url msg
      \<and> local_document_loader w doc url = load_local w url msg)
   \<and> (\<not> startswith url legacy_prefix \<and> \<not> path_exists w url \<and> path_exists w near \<longrightarrow>
      local_document_loader_for_check w doc url = load_local w near msg
      \<and> local_document_loader w doc url = load_local w near msg)
   \<and> (\<not> startswith url legacy_prefix \<and> \<not> path_exists w url \<and> \<not> path_exists w near \<longrightarrow>
      local_document_loader_for_check w doc url = load_local w (root url) msg
      \<and> local_document_loader w doc url = load_local w (script_contexts w url) msg)"
    unfolding msg_def root_def near_def
    by (simp add: local_document_loader_for_check_def local_document_loader_def
          local_path_for_check_def local_path_of_def)
  have mismatch:
    "(\<forall>p. normalized = Some p \<and> p \<noteq> [] \<longrightarrow>
      local_document_loader_for_mismatch w normalized url = load_local w p msg_mismatch)
   \<and> (\<not> truthy_path normalized \<and> path_exists w (root url) \<longrightarrow>
      local_document_loader_for_mismatch w normalized url = load_local w (root url) msg_mismatch)
   \<and> (\<not> truthy_path normalized \<and> \<not> path_exists w (root url) \<and> path_exists w url
        \<and> url \<noteq> [] \<longrightarrow>
      local_document_loader_for_mismatch w normalized url = load_local w url msg_mismatch)
   \<and> (\<not> truthy_path normalized \<and> \<not> path_exists w (root url)
        \<and> (\<not> path_exists w url \<or> url = []) \<longrightarrow>
      local_document_loader_for_mismatch w normalized url = Inl (JsonLdError msg_mismatch))"
    unfolding msg_mismatch_def root_def
    by (auto simp: local_document_loader_for_mismatch_def truthy_path_def Let_def
          load_local_missing join3_contexts_nonempty split: option.splits)
  have expected:
    "(path_exists w url \<longrightarrow>
      local_document_loader_for_expected w url = load_local w url msg_expected)
   \<and> (\<not> path_exists w url \<longrightarrow>
      local_document_loader_for_expected w url = load_local w (root url) msg_expected)"
    unfolding msg_expected_def root_def
    by (simp add: local_document_loader_for_expected_def)
  have lookup:
    "(\<forall>p m. \<not> path_exists w p \<longrightarrow> load_local w p m = Inl (JsonLdError m))
   \<and> (\<forall>p m d. path_exists w p \<and> load_json w p = Inr d \<longrightarrow>
        load_local w p m
          = Inr \<lparr>contextUrl = None, documentUrl = ''file://'' @ abspath w p, document = d\<rparr>)"
    by (simp add: load_local_missing load_local_present)
  from general mismatch expected lookup show ?thesis by blast
qed

text \<open>
  The claim as worded fails for a legacy reference with a directory after the prefix:
  what is left after stripping the prefix does not exist under the contexts directory,
  yet both general resolvers load the file named by the last segment. It also fails in
  the loader of the mismatch branch, where a reference that exists both as a path and
  under the contexts directory is taken from the contexts directory, and in the loader
  of the matching branch, which has no rule for the legacy prefix.
\<close>

lemma legacy_nested:
  "startswith (legacy_prefix @ ''v2/skill_profile_context.jsonld'') legacy_prefix
   \<and> drop (length legacy_prefix) (legacy_prefix @ ''v2/skill_profile_context.jsonld'')
        = ''v2/skill_profile_context.jsonld''
   \<and> last_segment (legacy_prefix @ ''v2/skill_profile_context.jsonld'')
        = ''skill_profile_context.jsonld''"
  by (simp add: startswith_def last_segment_def legacy_prefix_def)

lemma both_places:
  "path_exists ctx_world ''ctx.jsonld''"
  "path_exists ctx_world (join3 (PROJECT_ROOT_FOR_CONTEXTS ctx_world) ''contexts'' ''ctx.jsonld'')"
  by (simp_all add: world_eval path_eval)

lemma mismatch_prefers_root:
  "local_document_loader_for_mismatch ctx_world None ''ctx.jsonld''
     = Inr \<lparr>contextUrl = None, documentUrl = ''file:///repo/contexts/ctx.jsonld'',
             document = JObj [(''@context'', JObj [(''from'', JStr ''contexts-root'')])]\<rparr>"
  by (simp add: local_document_loader_for_mismatch_def truthy_path_def world_eval path_eval)

lemma expected_ignores_legacy:
  "local_document_loader_for_expected ctx_world (legacy_prefix @ ''skill_profile_context.jsonld'')
     = Inl (JsonLdError (''Context URL '' @ legacy_prefix @ ''skill_profile_context.jsonld''
              @ '' (expected) could not be resolved to a local file.''))"
  by (simp add: local_document_loader_for_expected_def world_eval path_eval)

theorem resolution_order_counterexample:
  "path_exists ctx_world ''ctx.jsonld''
   \<and> path_exists ctx_world
         (join3 (PROJECT_ROOT_FOR_CONTEXTS ctx_world) ''contexts'' ''ctx.jsonld'')
   \<and> local_document_loader_for_mismatch ctx_world None ''ctx.jsonld''
       = Inr \<lparr>contextUrl = None, documentUrl = ''file:///repo/contexts/ctx.jsonld'',
               document = JObj [(''@context'', JObj [(''from'', JStr ''contexts-root'')])]\<rparr>
   \<and> local_document_loader_for_expected ctx_world
         (legacy_prefix @ ''skill_profile_context.jsonld'')
       = Inl (JsonLdError (''Context URL '' @ legacy_prefix @ ''skill_profile_context.jsonld''
                @ '' (expected) could not be resolved to a local file.''))
   \<and> startswith (legacy_prefix @ ''v2/skill_profile_context.jsonld'') legacy_prefix
   \<and> drop (length legacy_prefix) (legacy_prefix @ ''v2/skill_profile_context.jsonld'')
        = ''v2/skill_profile_context.jsonld''
   \<and> \<not> path_exists ctx_world
          (join3 (PROJECT_ROOT_FOR_CONTEXTS ctx_world) ''contexts''
             ''v2/skill_profile_context.jsonld'')
   \<and> \<not> path_exists ctx_world (script_contexts ctx_world ''v2/skill_profile_context.jsonld'')
   \<and> local_document_loader_for_check ctx_world ''/repo/examples/other_example.json''
        (legacy_prefix @ ''v2/skill_profile_context.jsonld'')
       = Inr \<lparr>contextUrl = None,
               documentUrl = ''file:///repo/contexts/skill_profile_context.jsonld'',
               document = JObj [(''@context'',
                                 JObj [(''skill'', JStr ''http://example.org/skill'')])]\<rparr>
   \<and> local_document_loader ctx_world ''/repo/examples/other_example.json''
        (legacy_prefix @ ''v2/skill_profile_context.jsonld'')
       = Inr \<lparr>contextUrl = None,
               documentUrl = ''file:///repo/contexts/skill_profile_context.jsonld'',
               document = JObj [(''@context'',
                                 JObj [(''skill'', JStr ''http://example.org/skill'')])]\<rparr>"
proof -
  have a: "\<not> path_exists ctx_world
          (join3 (PROJECT_ROOT_FOR_CONTEXTS ctx_world) ''contexts''
             ''v2/skill_profile_context.jsonld'')"
    by (simp add: world_eval path_eval)
  have b: "\<not> path_exists ctx_world (script_contexts ctx_world ''v2/skill_profile_context.jsonld'')"
    by (simp add: world_eval path_eval)
  have c: "load_local ctx_world
             (join3 (PROJECT_ROOT_FOR_CONTEXTS ctx_world) ''contexts''
                ''skill_profile_context.jsonld'') m
       = Inr \<lparr>contextUrl = None,
               documentUrl = ''file:///repo/contexts/skill_profile_context.jsonld'',
               document = JObj [(''@context'',
                                 JObj [(''skill'', JStr ''http://example.org/skill'')])]\<rparr>" for m
    by (simp add: world_eval path_eval)
  have d: "load_local ctx_world (script_contexts ctx_world ''skill_profile_context.jsonld'') m
       = Inr \<lparr>contextUrl = None,
               documentUrl = ''file:///repo/contexts/skill_profile_context.jsonld'',
               document = JObj [(''@context'',
                                 JObj [(''skill'', JStr ''http://example.org/skill'')])]\<rparr>" for m
    by (simp add: world_eval path_eval)
  have e: "local_document_loader_for_check ctx_world ''/repo/examples/other_example.json''
        (legacy_prefix @ ''v2/skill_profile_context.jsonld'')
       = Inr \<lparr>contextUrl = None,
               documentUrl = ''file:///repo/contexts/skill_profile_context.jsonld'',
               document = JObj [(''@context'',
                                 JObj [(''skill'', JStr ''http://example.org/skill'')])]\<rparr>"
    "local_document_loader ctx_world ''/repo/examples/other_example.json''
        (legacy_prefix @ ''v2/skill_profile_context.jsonld'')
       = Inr \<lparr>contextUrl = None,
               documentUrl = ''file:///repo/contexts/skill_profile_context.jsonld'',
               document = JObj [(''@context'',
                                 JObj [(''skill'', JStr ''http://example.org/skill'')])]\<rparr>"
    using legacy_nested c d
    by (simp_all add: local_document_loader_for_check_def local_document_loader_def
          local_path_for_check_def local_path_of_def)
  from legacy_nested a b e both_places mismatch_prefers_root expected_ignores_legacy
  show ?thesis by blast
qed


theorem resolution_order_witness:
  "local_document_loader_for_check ctx_world ''/repo/examples/other_example.json''
        (legacy_prefix @ ''skill_profile_context.jsonld'')
       = Inr \<lparr>contextUrl = None,
               documentUrl = ''file:///repo/contexts/skill_profile_context.jsonld'',
               document = JObj [(''@context'',
                                 JObj [(''skill'', JStr ''http://example.org/skill'')])]\<rparr>
   \<and> path_exists ctx_world ''ctx.jsonld''
   \<and> path_exists ctx_world (join3 (PROJECT_ROOT_FOR_CONTEXTS ctx_world) ''contexts'' ''ctx.jsonld'')
   \<and> local_document_loader_for_check ctx_world ''/repo/examples/other_example.json'' ''ctx.jsonld''
       = Inr \<lparr>contextUrl = None, documentUrl = ''file:///repo/ctx.jsonld'',
               document = JObj [(''@context'', JObj [(''from'', JStr ''working-directory'')])]\<rparr>
   \<and> local_document_loader ctx_world ''/repo/examples/other_example.json'' ''ctx.jsonld''
       = Inr \<lparr>contextUrl = None, documentUrl = ''file:///repo/ctx.jsonld'',
               document = JObj [(''@context'', JObj [(''from'', JStr ''working-directory'')])]\<rparr>
   \<and> local_document_loader_for_check ctx_world ''/repo/examples/other_example.json''
         ''../contexts/repo_profile_context.jsonld''
       = Inr \<lparr>contextUrl = None,
               documentUrl = ''file:///repo/contexts/repo_profile_context.jsonld'',
               document = JObj [(''@context'',
                                 JObj [(''repo'', JStr ''http://example.org/repo'')])]\<rparr>
   \<and> local_document_loader_for_check ctx_world ''/repo/examples/other_example.json''
         ''repo_profile_context.jsonld''
       = Inr \<lparr>contextUrl = None,
               documentUrl = ''file:///repo/contexts/repo_profile_context.jsonld'',
               document = JObj [(''@context'',
                                 JObj [(''repo'', JStr ''http://example.org/repo'')])]\<rparr>
   \<and> local_document_loader_for_check ctx_world ''/repo/examples/other_example.json''
         ''nowhere.jsonld''
       = Inl (JsonLdError ''Context URL nowhere.jsonld could not be resolved to a local file.'')
   \<and> local_document_loader ctx_world ''/repo/examples/other_example.json'' ''nowhere.jsonld''
       = Inl (JsonLdError ''Context URL nowhere.jsonld could not be resolved to a local file.'')
   \<and> local_document_loader_for_mismatch ctx_world
         (Some ''/repo/contexts/repo_profile_context.jsonld'')
         ''../contexts/repo_profile_context.jsonld''
       = Inr \<lparr>contextUrl = None,
               documentUrl = ''file:///repo/contexts/repo_profile_context.jsonld'',
               document = JObj [(''@context'',
                                 JObj [(''repo'', JStr ''http://example.org/repo'')])]\<rparr>
   \<and> local_document_loader_for_mismatch ctx_world None ''ctx.jsonld''
       = Inr \<lparr>contextUrl = None, documentUrl = ''file:///repo/contexts/ctx.jsonld'',
               document = JObj [(''@context'', JObj [(''from'', JStr ''contexts-root'')])]\<rparr>
   \<and> local_document_loader_for_mismatch ctx_world None ''examples/extra_example.json''
       = Inr \<lparr>contextUrl = None, documentUrl = ''file:///repo/examples/extra_example.json'',
               document = JObj [(''@context'',
                                 JStr ''../contexts/skill_profile_context.jsonld'')]\<rparr>
   \<and> local_document_loader_for_mismatch ctx_world None ''nowhere.jsonld''
       = Inl (JsonLdError (''Context URL nowhere.jsonld (from actual_context)''
                @ '' could not be resolved to a local file for expansion.''))
   \<and> local_document_loader_for_expected ctx_world ''ctx.jsonld''
       = Inr \<lparr>contextUrl = None, documentUrl = ''file:///repo/ctx.jsonld'',
               document = JObj [(''@context'', JObj [(''from'', JStr ''working-directory'')])]\<rparr>
   \<and> local_document_loader_for_expected ctx_world ''repo_profile_context.jsonld''
       = Inr \<lparr>contextUrl = None,
               documentUrl = ''file:///repo/contexts/repo_profile_context.jsonld'',
               document = JObj [(''@context'',
                                 JObj [(''repo'', JStr ''http://example.org/repo'')])]\<rparr>"
proof -
  let ?doc = "''/repo/examples/other_example.json''"
  have pre: "startswith (legacy_prefix @ ''skill_profile_context.jsonld'') legacy_prefix"
      "last_segment (legacy_prefix @ ''skill_profile_context.jsonld'')
         = ''skill_profile_context.jsonld''"
    by (simp_all add: startswith_def last_segment_def legacy_prefix_def)
  have nopre: "\<not> startswith ''ctx.jsonld'' legacy_prefix"
      "\<not> startswith ''../contexts/repo_profile_context.jsonld'' legacy_prefix"
      "\<not> startswith ''repo_profile_context.jsonld'' legacy_prefix"
      "\<not> startswith ''nowhere.jsonld'' legacy_prefix"
    by (simp_all add: startswith_def legacy_prefix_def)
  have ex: "path_exists ctx_world ''ctx.jsonld''"
      "path_exists ctx_world (join3 (PROJECT_ROOT_FOR_CONTEXTS ctx_world) ''contexts'' ''ctx.jsonld'')"
      "\<not> path_exists ctx_world ''../contexts/repo_profile_context.jsonld''"
      "path_exists ctx_world (join2 (dirname ?doc) ''../contexts/repo_profile_context.jsonld'')"
      "\<not> path_exists ctx_world ''repo_profile_context.jsonld''"
      "\<not> path_exists ctx_world (join2 (dirname ?doc) ''repo_profile_context.jsonld'')"
      "\<not> path_exists ctx_world ''nowhere.jsonld''"
      "\<not> path_exists ctx_world (join2 (dirname ?doc) ''nowhere.jsonld'')"
      "\<not> path_exists ctx_world (join3 (PROJECT_ROOT_FOR_CONTEXTS ctx_world) ''contexts'' ''nowhere.jsonld'')"
      "\<not> path_exists ctx_world (script_contexts ctx_world ''nowhere.jsonld'')"
    by (simp_all add: world_eval path_eval)
  have ld: "load_local ctx_world
             (join3 (PROJECT_ROOT_FOR_CONTEXTS ctx_world) ''contexts''
                ''skill_profile_context.jsonld'') m
       = Inr \<lparr>contextUrl = None,
               documentUrl = ''file:///repo/contexts/skill_profile_context.jsonld'',
               document = JObj [(''@context'',
                                 JObj [(''skill'', JStr ''http://example.org/skill'')])]\<rparr>"
      "load_local ctx_world ''ctx.jsonld'' m
       = Inr \<lparr>contextUrl = None, documentUrl = ''file:///repo/ctx.jsonld'',
               document = JObj [(''@context'', JObj [(''from'', JStr ''working-directory'')])]\<rparr>"
      "load_local ctx_world (join2 (dirname ?doc) ''../contexts/repo_profile_context.jsonld'') m
       = Inr \<lparr>contextUrl = None,
               documentUrl = ''file:///repo/contexts/repo_profile_context.jsonld'',
               document = JObj [(''@context'',
                                 JObj [(''repo'', JStr ''http://example.org/repo'')])]\<rparr>"
      "load_local ctx_world
         (join3 (PROJECT_ROOT_FOR_CONTEXTS ctx_world) ''contexts'' ''repo_profile_context.jsonld'') m
       = Inr \<lparr>contextUrl = None,
               documentUrl = ''file:///repo/contexts/repo_profile_context.jsonld'',
               document = JObj [(''@context'',
                                 JObj [(''repo'', JStr ''http://example.org/repo'')])]\<rparr>"
    for m
    by (simp_all add: world_eval path_eval)
  note r1 = resolution_order [where url = "legacy_prefix @ ''skill_profile_context.jsonld''" and w = ctx_world and doc = ?doc
      and normalized = None]
  note r2 = resolution_order [where url = "''ctx.jsonld''" and w = ctx_world and doc = ?doc
      and normalized = None]
  note r3 = resolution_order [where url = "''../contexts/repo_profile_context.jsonld''" and w = ctx_world and doc = ?doc
      and normalized = None]
  note r4 = resolution_order [where url = "''repo_profile_context.jsonld''" and w = ctx_world and doc = ?doc
      and normalized = None]
  note r5 = resolution_order [where url = "''nowhere.jsonld''" and w = ctx_world and doc = ?doc
      and normalized = None]
  have c1: "local_document_loader_for_check ctx_world ?doc
        (legacy_prefix @ ''skill_profile_context.jsonld'')
       = Inr \<lparr>contextUrl = None,
               documentUrl = ''file:///repo/contexts/skill_profile_context.jsonld'',
               document = JObj [(''@context'',
                                 JObj [(''skill'', JStr ''http://example.org/skill'')])]\<rparr>"
    using r1 pre ld(1) by simp
  have c2: "local_document_loader_for_check ctx_world ?doc ''ctx.jsonld''
       = Inr \<lparr>contextUrl = None, documentUrl = ''file:///repo/ctx.jsonld'',
               document = JObj [(''@context'', JObj [(''from'', JStr ''working-directory'')])]\<rparr>"
      "local_document_loader ctx_world ?doc ''ctx.jsonld''
       = Inr \<lparr>contextUrl = None, documentUrl = ''file:///repo/ctx.jsonld'',
               document = JObj [(''@context'', JObj [(''from'', JStr ''working-directory'')])]\<rparr>"
    using r2 nopre(1) ex(1) ld(2) by simp_all
  have c3: "local_document_loader_for_check ctx_world ?doc
         ''../contexts/repo_profile_context.jsonld''
       = Inr \<lparr>contextUrl = None,
               documentUrl = ''file:///repo/contexts/repo_profile_context.jsonld'',
               document = JObj [(''@context'',
                                 JObj [(''repo'', JStr ''http://example.org/repo'')])]\<rparr>"
    using r3 nopre(2) ex(3,4) ld(3) by simp
  have c4: "local_document_loader_for_check ctx_world ?doc ''repo_profile_context.jsonld''
       = Inr \<lparr>contextUrl = None,
               documentUrl = ''file:///repo/contexts/repo_profile_context.jsonld'',
               document = JObj [(''@context'',
                                 JObj [(''repo'', JStr ''http://example.org/repo'')])]\<rparr>"
    using r4 nopre(3) ex(5,6) ld(4) by simp
  have c5: "local_document_loader_for_check ctx_world ?doc ''nowhere.jsonld''
       = Inl (JsonLdError ''Context URL nowhere.jsonld could not be resolved to a local file.'')"
      "local_document_loader ctx_world ?doc ''nowhere.jsonld''
       = Inl (JsonLdError ''Context URL nowhere.jsonld could not be resolved to a local file.'')"
    using r5 nopre(4) ex(7,8,9,10) by simp_all
  note r6 = resolution_order [where url = "''../contexts/repo_profile_context.jsonld''"
      and w = ctx_world and doc = ?doc
      and normalized = "Some ''/repo/contexts/repo_profile_context.jsonld''"]
  note r7 = resolution_order [where url = "''examples/extra_example.json''" and w = ctx_world
      and doc = ?doc and normalized = None]
  have ex2: "\<not> path_exists ctx_world
               (join3 (PROJECT_ROOT_FOR_CONTEXTS ctx_world) ''contexts''
                  ''examples/extra_example.json'')"
      "path_exists ctx_world ''examples/extra_example.json''"
    by (simp_all add: world_eval path_eval)
  have ld2: "load_local ctx_world ''/repo/contexts/repo_profile_context.jsonld'' m
       = Inr \<lparr>contextUrl = None,
               documentUrl = ''file:///repo/contexts/repo_profile_context.jsonld'',
               document = JObj [(''@context'',
                                 JObj [(''repo'', JStr ''http://example.org/repo'')])]\<rparr>"
      "load_local ctx_world
         (join3 (PROJECT_ROOT_FOR_CONTEXTS ctx_world) ''contexts'' ''ctx.jsonld'') m
       = Inr \<lparr>contextUrl = None, documentUrl = ''file:///repo/contexts/ctx.jsonld'',
               document = JObj [(''@context'', JObj [(''from'', JStr ''contexts-root'')])]\<rparr>"
      "load_local ctx_world ''examples/extra_example.json'' m
       = Inr \<lparr>contextUrl = None, documentUrl = ''file:///repo/examples/extra_example.json'',
               document = JObj [(''@context'',
                                 JStr ''../contexts/skill_profile_context.jsonld'')]\<rparr>"
    for m
    by (simp_all add: world_eval path_eval)
  have n: "\<not> truthy_path None" by (simp add: truthy_path_def)
  have c6: "local_document_loader_for_mismatch ctx_world
         (Some ''/repo/contexts/repo_profile_context.jsonld'')
         ''../contexts/repo_profile_context.jsonld''
       = Inr \<lparr>contextUrl = None,
               documentUrl = ''file:///repo/contexts/repo_profile_context.jsonld'',
               document = JObj [(''@context'',
                                 JObj [(''repo'', JStr ''http://example.org/repo'')])]\<rparr>"
    using r6 ld2(1) by simp
  have c7: "local_document_loader_for_mismatch ctx_world None ''ctx.jsonld''
       = Inr \<lparr>contextUrl = None, documentUrl = ''file:///repo/contexts/ctx.jsonld'',
               document = JObj [(''@context'', JObj [(''from'', JStr ''contexts-root'')])]\<rparr>"
    using r2 n ex(2) ld2(2) by simp
  have c8: "local_document_loader_for_mismatch ctx_world None ''examples/extra_example.json''
       = Inr \<lparr>contextUrl = None, documentUrl = ''file:///repo/examples/extra_example.json'',
               document = JObj [(''@context'',
                                 JStr ''../contexts/skill_profile_context.jsonld'')]\<rparr>"
    using r7 n ex2 ld2(3) by simp
  have c9: "local_document_loader_for_mismatch ctx_world None ''nowhere.jsonld''
       = Inl (JsonLdError (''Context URL nowhere.jsonld (from actual_context)''
                @ '' could not be resolved to a local file for expansion.''))"
    using r5 n ex(7,9) by simp
  have c10: "local_document_loader_for_expected ctx_world ''ctx.jsonld''
       = Inr \<lparr>contextUrl = None, documentUrl = ''file:///repo/ctx.jsonld'',
               document = JObj [(''@context'', JObj [(''from'', JStr ''working-directory'')])]\<rparr>"
    using r2 ex(1) ld(2) by simp
  have c11: "local_document_loader_for_expected ctx_world ''repo_profile_context.jsonld''
       = Inr \<lparr>contextUrl = None,
               documentUrl = ''file:///repo/contexts/repo_profile_context.jsonld'',
               document = JObj [(''@context'',
                                 JObj [(''repo'', JStr ''http://example.org/repo'')])]\<rparr>"
    using r4 ex(5) ld(4) by simp
  from c1 c2 c3 c4 c5 c6 c7 c8 c9 c10 c11 ex(1,2) show ?thesis by simp
qed

section \<open>The context conformance checker: mismatches\<close>

lemma syntax_ok_of_load: "load_json w p = Inr d \<Longrightarrow> validate_json_syntax w p = Inr (True, [])"
  by (simp add: validate_json_syntax_def)

lemma mismatch_result:
  assumes loaded: "load_json w p = Inr (JObj kvs)"
    and declared: "dict_get kvs ''@context'' = Some ctx" "truthy (Some ctx)"
    and mapped: "expected_context_name (basename p) = Some name"
    and differs: "normalized_actual_context_path w p ctx
                    \<noteq> Some (normpath (join3 (PROJECT_ROOT_FOR_CONTEXTS w) ''contexts'' name))"
  shows "check_context_utilization w p b =
           Inr (False,
             ''Context path mismatch: Expected '' @ [CHR 0x27]
               @ normpath (join3 (PROJECT_ROOT_FOR_CONTEXTS w) ''contexts'' name) @ [CHR 0x27]
               @ '', but found '' @ [CHR 0x27] @ fmt w ctx @ [CHR 0x27]
               @ '' (resolved to '' @ [CHR 0x27]
               @ fmt_path (normalized_actual_context_path w p ctx) @ [CHR 0x27] @ '').''
               @ (case jsonld_expand w (JObj kvs)
                         (local_document_loader_for_mismatch w
                            (normalized_actual_context_path w p ctx)) of
                    Inr u \<Rightarrow> '' However, the document expanded successfully with the provided (mismatched) context.''
                  | Inl e \<Rightarrow> '' Additionally, JSON-LD expansion with the provided (mismatched) context failed: '' @ exn_str e))"
  using assms
  by (simp add: check_context_utilization_def syntax_ok_of_load mismatch_message_def Let_def
        split: sum.splits)

text \<open>
  C4. An example file with a known mapping, whose document is an object with a truthy
  \<^verbatim>\<open>@context\<close>, and whose declared context does not normalise to the
  expected path (it normalises to another path or to none): the check returns a
  failure. Its message names the expected path, the declared value and the path it
  resolved to (\<^verbatim>\<open>None\<close> when there is none), and ends in one of two
  different sentences according to whether expansion with the declared context
  succeeded; it is a failure in both cases.
\<close>

theorem context_mismatch_fails:
  assumes loaded: "load_json w p = Inr (JObj kvs)"
    and declared: "dict_get kvs ''@context'' = Some ctx" "truthy (Some ctx)"
    and mapped: "expected_context_name (basename p) = Some name"
    and differs: "normalized_actual_context_path w p ctx
                    \<noteq> Some (normpath (join3 (PROJECT_ROOT_FOR_CONTEXTS w) ''contexts'' name))"
  shows "check_context_utilization w p b =
           Inr (False,
             ''Context path mismatch: Expected '' @ [CHR 0x27]
               @ normpath (join3 (PROJECT_ROOT_FOR_CONTEXTS w) ''contexts'' name) @ [CHR 0x27]
               @ '', but found '' @ [CHR 0x27] @ fmt w ctx @ [CHR 0x27]
               @ '' (resolved to '' @ [CHR 0x27]
               @ fmt_path (normalized_actual_context_path w p ctx) @ [CHR 0x27] @ '').''
               @ (case jsonld_expand w (JObj kvs)
                         (local_document_loader_for_mismatch w
                            (normalized_actual_context_path w p ctx)) of
                    Inr u \<Rightarrow> '' However, the document expanded successfully with the provided (mismatched) context.''
                  | Inl e \<Rightarrow> '' Additionally, JSON-LD expansion with the provided (mismatched) context failed: '' @ exn_str e))"
  using assms by (rule mismatch_result)

lemma skill_example_eval:
  "load_json ctx_world ''/repo/examples/skill_profile_example.json''
     = Inr (JObj [(''@context'', JStr ''../contexts/repo_profile_context.jsonld''),
                  (''skill'', JStr ''x'')])"
  "basename ''/repo/examples/skill_profile_example.json'' = ''skill_profile_example.json''"
  "normalized_actual_context_path ctx_world ''/repo/examples/skill_profile_example.json''
     (JStr ''../contexts/repo_profile_context.jsonld'')
     = Some ''/repo/contexts/repo_profile_context.jsonld''"
  "normpath (join3 (PROJECT_ROOT_FOR_CONTEXTS ctx_world) ''contexts''
      ''skill_profile_context.jsonld'') = ''/repo/contexts/skill_profile_context.jsonld''"
  by (simp_all add: world_eval path_eval normalized_actual_context_path_def isabs_def)

lemma skill_example_expands:
  "jsonld_expand ctx_world
     (JObj [(''@context'', JStr ''../contexts/repo_profile_context.jsonld''),
            (''skill'', JStr ''x'')])
     (local_document_loader_for_mismatch ctx_world
        (Some ''/repo/contexts/repo_profile_context.jsonld'')) = Inr ()"
  by (simp add: world_eval path_eval expand_by_loader_def dict_get_def
        local_document_loader_for_mismatch_def truthy_path_def fmt_path_def)

lemma code_example_eval:
  "load_json ctx_world ''/repo/examples/code_classification_example.json''
     = Inr (JObj [(''@context'', JStr ''nowhere.jsonld'')])"
  "basename ''/repo/examples/code_classification_example.json''
     = ''code_classification_example.json''"
  "normalized_actual_context_path ctx_world ''/repo/examples/code_classification_example.json''
     (JStr ''nowhere.jsonld'') = None"
  "normpath (join3 (PROJECT_ROOT_FOR_CONTEXTS ctx_world) ''contexts''
      ''code_classification_context.jsonld'')
     = ''/repo/contexts/code_classification_context.jsonld''"
  by (simp_all add: world_eval path_eval normalized_actual_context_path_def isabs_def)

lemma code_example_expand_fails:
  "jsonld_expand ctx_world (JObj [(''@context'', JStr ''nowhere.jsonld'')])
     (local_document_loader_for_mismatch ctx_world None)
   = Inl (JsonLdError (''loading remote context failed: Context URL nowhere.jsonld''
            @ '' (from actual_context) could not be resolved to a local file for expansion.''))"
  by (simp add: world_eval path_eval expand_by_loader_def dict_get_def
        local_document_loader_for_mismatch_def truthy_path_def fmt_path_def)

theorem context_mismatch_fails_witness:
  "check_context_utilization ctx_world ''/repo/examples/skill_profile_example.json'' ''.''
     = Inr (False,
         ''Context path mismatch: Expected '' @ [CHR 0x27]
           @ ''/repo/contexts/skill_profile_context.jsonld'' @ [CHR 0x27]
           @ '', but found '' @ [CHR 0x27] @ ''../contexts/repo_profile_context.jsonld''
           @ [CHR 0x27] @ '' (resolved to '' @ [CHR 0x27]
           @ ''/repo/contexts/repo_profile_context.jsonld'' @ [CHR 0x27] @ '').''
           @ '' However, the document expanded successfully with the provided (mismatched) context.'')
   \<and> check_context_utilization ctx_world ''/repo/examples/code_classification_example.json'' ''.''
     = Inr (False,
         ''Context path mismatch: Expected '' @ [CHR 0x27]
           @ ''/repo/contexts/code_classification_context.jsonld'' @ [CHR 0x27]
           @ '', but found '' @ [CHR 0x27] @ ''nowhere.jsonld''
           @ [CHR 0x27] @ '' (resolved to '' @ [CHR 0x27] @ ''None'' @ [CHR 0x27] @ '').''
           @ '' Additionally, JSON-LD expansion with the provided (mismatched) context failed: ''
           @ ''loading remote context failed: Context URL nowhere.jsonld''
           @ '' (from actual_context) could not be resolved to a local file for expansion.'')"
proof -
  have m1: "expected_context_name ''skill_profile_example.json''
              = Some ''skill_profile_context.jsonld''"
    and m2: "expected_context_name ''code_classification_example.json''
              = Some ''code_classification_context.jsonld''"
    by (simp_all add: expected_context_name_def)
  have d1: "dict_get [(''@context'', JStr ''../contexts/repo_profile_context.jsonld''),
                      (''skill'', JStr ''x'')] ''@context''
              = Some (JStr ''../contexts/repo_profile_context.jsonld'')"
    and d2: "dict_get [(''@context'', JStr ''nowhere.jsonld'')] ''@context''
              = Some (JStr ''nowhere.jsonld'')"
    by (simp_all add: dict_get_def)
  have a: "check_context_utilization ctx_world ''/repo/examples/skill_profile_example.json'' ''.''
     = Inr (False,
         ''Context path mismatch: Expected '' @ [CHR 0x27]
           @ ''/repo/contexts/skill_profile_context.jsonld'' @ [CHR 0x27]
           @ '', but found '' @ [CHR 0x27] @ ''../contexts/repo_profile_context.jsonld''
           @ [CHR 0x27] @ '' (resolved to '' @ [CHR 0x27]
           @ ''/repo/contexts/repo_profile_context.jsonld'' @ [CHR 0x27] @ '').''
           @ '' However, the document expanded successfully with the provided (mismatched) context.'')"
    using context_mismatch_fails [of ctx_world "''/repo/examples/skill_profile_example.json''"
        "[(''@context'', JStr ''../contexts/repo_profile_context.jsonld''), (''skill'', JStr ''x'')]"
        "JStr ''../contexts/repo_profile_context.jsonld''" "''skill_profile_context.jsonld''" "''.''"]
      skill_example_eval skill_example_expands m1 d1
    by (simp add: fmt_def fmt_path_def)
  have b: "check_context_utilization ctx_world ''/repo/examples/code_classification_example.json'' ''.''
     = Inr (False,
         ''Context path mismatch: Expected '' @ [CHR 0x27]
           @ ''/repo/contexts/code_classification_context.jsonld'' @ [CHR 0x27]
           @ '', but found '' @ [CHR 0x27] @ ''nowhere.jsonld''
           @ [CHR 0x27] @ '' (resolved to '' @ [CHR 0x27] @ ''None'' @ [CHR 0x27] @ '').''
           @ '' Additionally, JSON-LD expansion with the provided (mismatched) context failed: ''
           @ ''loading remote context failed: Context URL nowhere.jsonld''
           @ '' (from actual_context) could not be resolved to a local file for expansion.'')"
    using context_mismatch_fails [of ctx_world "''/repo/examples/code_classification_example.json''"
        "[(''@context'', JStr ''nowhere.jsonld'')]"
        "JStr ''nowhere.jsonld''" "''code_classification_context.jsonld''" "''.''"]
      code_example_eval code_example_expand_fails m2 d2
    by (simp add: fmt_def fmt_path_def)
  from a b show ?thesis by blast
qed

lemma normalized_non_string:
  "\<forall>s. ctx \<noteq> JStr s \<Longrightarrow> normalized_actual_context_path w p ctx = None"
  by (cases ctx) (simp_all add: normalized_actual_context_path_def)

text \<open>
  C9. With a known mapping and a \<^verbatim>\<open>@context\<close> that is truthy but not a
  string, normalisation yields no path and the check returns the mismatch failure,
  whatever expansion does.
\<close>

theorem non_string_context_mismatch:
  assumes loaded: "load_json w p = Inr (JObj kvs)"
    and declared: "dict_get kvs ''@context'' = Some ctx" "truthy (Some ctx)"
    and not_string: "\<forall>s. ctx \<noteq> JStr s"
    and mapped: "expected_context_name (basename p) = Some name"
  shows "normalized_actual_context_path w p ctx = None
         \<and> (\<exists>tail. check_context_utilization w p b =
               Inr (False,
                 ''Context path mismatch: Expected '' @ [CHR 0x27]
                   @ normpath (join3 (PROJECT_ROOT_FOR_CONTEXTS w) ''contexts'' name)
                   @ [CHR 0x27] @ '', but found '' @ [CHR 0x27] @ py_repr w ctx @ [CHR 0x27]
                   @ '' (resolved to '' @ [CHR 0x27] @ ''None'' @ [CHR 0x27] @ '').'' @ tail))"
proof -
  have n: "normalized_actual_context_path w p ctx = None"
    using not_string by (rule normalized_non_string)
  have f: "fmt w ctx = py_repr w ctx"
    using not_string by (cases ctx) (simp_all add: fmt_def)
  have d: "normalized_actual_context_path w p ctx
             \<noteq> Some (normpath (join3 (PROJECT_ROOT_FOR_CONTEXTS w) ''contexts'' name))"
    using n by simp
  have "check_context_utilization w p b =
          Inr (False,
            ''Context path mismatch: Expected '' @ [CHR 0x27]
              @ normpath (join3 (PROJECT_ROOT_FOR_CONTEXTS w) ''contexts'' name)
              @ [CHR 0x27] @ '', but found '' @ [CHR 0x27] @ py_repr w ctx @ [CHR 0x27]
              @ '' (resolved to '' @ [CHR 0x27] @ ''None'' @ [CHR 0x27] @ '').''
              @ (case jsonld_expand w (JObj kvs) (local_document_loader_for_mismatch w None) of
                   Inr u \<Rightarrow> '' However, the document expanded successfully with the provided (mismatched) context.''
                 | Inl e \<Rightarrow> '' Additionally, JSON-LD expansion with the provided (mismatched) context failed: '' @ exn_str e))"
    using mismatch_result [OF loaded declared mapped d, of b] n f
    by (simp add: fmt_path_def)
  with n show ?thesis by blast
qed

lemma repo_example_eval:
  "load_json ctx_world ''/repo/examples/repo_profile_example.json''
     = Inr (JObj [(''@context'', JObj [(''repo'', JStr ''http://example.org/repo'')])])"
  "basename ''/repo/examples/repo_profile_example.json'' = ''repo_profile_example.json''"
  "normpath (join3 (PROJECT_ROOT_FOR_CONTEXTS ctx_world) ''contexts''
      ''repo_profile_context.jsonld'') = ''/repo/contexts/repo_profile_context.jsonld''"
  "py_repr ctx_world j = ''<value>''"
  by (simp_all add: world_eval path_eval)

theorem non_string_context_mismatch_witness:
  "\<exists>tail. check_context_utilization ctx_world ''/repo/examples/repo_profile_example.json'' ''.''
     = Inr (False,
         ''Context path mismatch: Expected '' @ [CHR 0x27]
           @ ''/repo/contexts/repo_profile_context.jsonld'' @ [CHR 0x27]
           @ '', but found '' @ [CHR 0x27] @ ''<value>'' @ [CHR 0x27]
           @ '' (resolved to '' @ [CHR 0x27] @ ''None'' @ [CHR 0x27] @ '').'' @ tail)"
proof -
  have m: "expected_context_name ''repo_profile_example.json''
              = Some ''repo_profile_context.jsonld''"
    by (simp add: expected_context_name_def)
  have d: "dict_get [(''@context'', JObj [(''repo'', JStr ''http://example.org/repo'')])]
             ''@context'' = Some (JObj [(''repo'', JStr ''http://example.org/repo'')])"
    by (simp add: dict_get_def)
  have t: "truthy (Some (JObj [(''repo'', JStr ''http://example.org/repo'')]))"
    and s: "\<forall>s. JObj [(''repo'', JStr ''http://example.org/repo'')] \<noteq> JStr s"
    by simp_all
  from non_string_context_mismatch [of ctx_world "''/repo/examples/repo_profile_example.json''"
        "[(''@context'', JObj [(''repo'', JStr ''http://example.org/repo'')])]"
        "JObj [(''repo'', JStr ''http://example.org/repo'')]" "''repo_profile_context.jsonld''"
        "''.''"]
      repo_example_eval m d t s
  show ?thesis by simp
qed

section \<open>The context conformance checker: files without a mapping\<close>

text \<open>
  C2, as the code has it. For an example file with no entry in the name-to-context
  table, whose document is an object with a truthy \<^verbatim>\<open>@context\<close>: when
  expansion succeeds the check returns success with a warning message and the
  orchestrator counts nothing; when expansion fails the check returns a failure whose
  message begins with \<^verbatim>\<open>WARNING:\<close>, and the orchestrator counts it as a
  context error like any other failure.
\<close>

theorem unmapped_context_outcomes:
  assumes loaded: "load_json w p = Inr (JObj kvs)"
    and declared: "dict_get kvs ''@context'' = Some ctx" "truthy (Some ctx)"
    and unmapped: "expected_context_name (basename p) = None"
  shows "(jsonld_expand w (JObj kvs) (local_document_loader_for_check w p) = Inr () \<longrightarrow>
            check_context_utilization w p b =
              Inr (True, ''WARNING: No specific expected context mapping for '' @ basename p
                     @ ''. Document expanded successfully with provided context ''
                     @ [CHR 0x27] @ fmt w ctx @ [CHR 0x27] @ ''.'')
            \<and> fst (context_body w vb p) = 0)
         \<and> (\<forall>e. jsonld_expand w (JObj kvs) (local_document_loader_for_check w p) = Inl e \<longrightarrow>
            check_context_utilization w p b =
              Inr (False, ''WARNING: No specific expected context mapping for '' @ basename p
                     @ ''. Expansion with provided context ''
                     @ [CHR 0x27] @ fmt w ctx @ [CHR 0x27] @ '' failed: '' @ exn_str e)
            \<and> fst (context_body w vb p) = 1)"
  using assms
  by (simp add: check_context_utilization_def context_body_def syntax_ok_of_load Let_def)

lemma other_example_eval:
  "load_json ctx_world ''/repo/examples/other_example.json''
     = Inr (JObj [(''@context'', JStr ''missing_context.jsonld'')])"
  "basename ''/repo/examples/other_example.json'' = ''other_example.json''"
  by (simp_all add: world_eval path_eval)

lemma other_example_expand_fails:
  "jsonld_expand ctx_world (JObj [(''@context'', JStr ''missing_context.jsonld'')])
     (local_document_loader_for_check ctx_world ''/repo/examples/other_example.json'')
   = Inl (JsonLdError (''loading remote context failed: Context URL missing_context.jsonld''
            @ '' could not be resolved to a local file.''))"
  by (simp add: world_eval path_eval expand_by_loader_def dict_get_def
        local_document_loader_for_check_def local_path_for_check_def)

lemma extra_example_eval:
  "load_json ctx_world ''/repo/examples/extra_example.json''
     = Inr (JObj [(''@context'', JStr ''../contexts/skill_profile_context.jsonld'')])"
  "basename ''/repo/examples/extra_example.json'' = ''extra_example.json''"
  by (simp_all add: world_eval path_eval)

lemma extra_example_expands:
  "jsonld_expand ctx_world (JObj [(''@context'', JStr ''../contexts/skill_profile_context.jsonld'')])
     (local_document_loader_for_check ctx_world ''/repo/examples/extra_example.json'') = Inr ()"
  by (simp add: world_eval path_eval expand_by_loader_def dict_get_def
        local_document_loader_for_check_def local_path_for_check_def)

lemma unmapped_names:
  "expected_context_name ''other_example.json'' = None"
  "expected_context_name ''extra_example.json'' = None"
  by (simp_all add: expected_context_name_def)

theorem unmapped_context_outcomes_witness:
  "check_context_utilization ctx_world ''/repo/examples/extra_example.json'' ''.''
     = Inr (True, ''WARNING: No specific expected context mapping for extra_example.json''
              @ ''. Document expanded successfully with provided context ''
              @ [CHR 0x27] @ ''../contexts/skill_profile_context.jsonld'' @ [CHR 0x27] @ ''.'')
   \<and> fst (context_body ctx_world False ''/repo/examples/extra_example.json'') = 0
   \<and> check_context_utilization ctx_world ''/repo/examples/other_example.json'' ''.''
     = Inr (False, ''WARNING: No specific expected context mapping for other_example.json''
              @ ''. Expansion with provided context ''
              @ [CHR 0x27] @ ''missing_context.jsonld'' @ [CHR 0x27] @ '' failed: ''
              @ ''loading remote context failed: Context URL missing_context.jsonld''
              @ '' could not be resolved to a local file.'')
   \<and> fst (context_body ctx_world False ''/repo/examples/other_example.json'') = 1"
proof -
  have d1: "dict_get [(''@context'', JStr ''../contexts/skill_profile_context.jsonld'')] ''@context''
              = Some (JStr ''../contexts/skill_profile_context.jsonld'')"
    and d2: "dict_get [(''@context'', JStr ''missing_context.jsonld'')] ''@context''
              = Some (JStr ''missing_context.jsonld'')"
    by (simp_all add: dict_get_def)
  have a: "check_context_utilization ctx_world ''/repo/examples/extra_example.json'' ''.''
     = Inr (True, ''WARNING: No specific expected context mapping for extra_example.json''
              @ ''. Document expanded successfully with provided context ''
              @ [CHR 0x27] @ ''../contexts/skill_profile_context.jsonld'' @ [CHR 0x27] @ ''.'')
   \<and> fst (context_body ctx_world False ''/repo/examples/extra_example.json'') = 0"
    using unmapped_context_outcomes [of ctx_world "''/repo/examples/extra_example.json''"
        "[(''@context'', JStr ''../contexts/skill_profile_context.jsonld'')]"
        "JStr ''../contexts/skill_profile_context.jsonld''" "''.''" False]
      extra_example_eval extra_example_expands unmapped_names d1
    by (simp add: fmt_def)
  have b: "check_context_utilization ctx_world ''/repo/examples/other_example.json'' ''.''
     = Inr (False, ''WARNING: No specific expected context mapping for other_example.json''
              @ ''. Expansion with provided context ''
              @ [CHR 0x27] @ ''missing_context.jsonld'' @ [CHR 0x27] @ '' failed: ''
              @ ''loading remote context failed: Context URL missing_context.jsonld''
              @ '' could not be resolved to a local file.'')
   \<and> fst (context_body ctx_world False ''/repo/examples/other_example.json'') = 1"
    using unmapped_context_outcomes [of ctx_world "''/repo/examples/other_example.json''"
        "[(''@context'', JStr ''missing_context.jsonld'')]"
        "JStr ''missing_context.jsonld''" "''.''" False]
      other_example_eval other_example_expand_fails unmapped_names d2
    by (simp add: fmt_def)
  from a b show ?thesis by blast
qed

text \<open>
  The claim as worded fails at an unmapped example whose context reference dangles:
  the check fails and the run counts one context error.
\<close>

lemma other_check:
  "check_context_utilization ctx_world ''/repo/examples/other_example.json'' ''.''
     = Inr (False, ''WARNING: No specific expected context mapping for other_example.json''
              @ ''. Expansion with provided context ''
              @ [CHR 0x27] @ ''missing_context.jsonld'' @ [CHR 0x27] @ '' failed: ''
              @ ''loading remote context failed: Context URL missing_context.jsonld''
              @ '' could not be resolved to a local file.'')"
  using other_example_eval other_example_expand_fails unmapped_names
  by (simp add: check_context_utilization_def syntax_ok_of_load dict_get_def fmt_def)

lemma other_discover:
  "discover ctx_world [''examples/other_example.json''] = ([''/repo/examples/other_example.json''], [])"
  by (simp add: world_eval path_eval)

lemma other_is_example: "is_example ''/repo/examples/other_example.json''"
  by (simp add: is_example_def path_eval)

theorem unmapped_context_counterexample:
  "expected_context_name (basename ''/repo/examples/other_example.json'') = None
   \<and> (\<exists>msg. check_context_utilization ctx_world ''/repo/examples/other_example.json'' ''.''
               = Inr (False, msg))
   \<and> total_context_errors (main ctx_world (context_only [''examples/other_example.json''])) = 1"
proof -
  have m: "total_context_errors (main ctx_world (context_only [''examples/other_example.json''])) = 1"
    by (simp add: main_def context_only_def when_stage_def context_stage_def context_body_def
          other_discover other_is_example other_check Let_def is_jsonld_def endswith_def
          del: discover.simps)
  from m other_check other_example_eval(2) unmapped_names(1) show ?thesis by simp
qed

section \<open>The run as a whole\<close>

lemma syntax_returns: "\<exists>r. validate_json_syntax w p = Inr r"
  by (auto simp: validate_json_syntax_def split: sum.splits exn.splits)

lemma jsonld_returns: "\<exists>r. validate_jsonld_structure w p = Inr r"
proof -
  obtain ok m where "validate_json_syntax w p = Inr (ok, m)"
    using syntax_returns [of w p] by auto
  then show ?thesis
    by (auto simp: validate_jsonld_structure_def split: sum.splits exn.splits)
qed

lemma schema_returns: "\<exists>r. validate_with_schema w p s = Inr r"
proof -
  obtain ok m where "validate_json_syntax w p = Inr (ok, m)"
    using syntax_returns [of w p] by auto
  then show ?thesis
    by (auto simp: validate_with_schema_def split: sum.splits exn.splits)
qed

lemma syntax_body_quiet: "snd (snd (syntax_body w vb f)) = None"
  using syntax_returns [of w f] by (auto simp: syntax_body_def)

lemma jsonld_body_quiet: "snd (snd (jsonld_body w vb f)) = None"
  using jsonld_returns [of w f] by (auto simp: jsonld_body_def)

lemma schema_body_quiet: "snd (snd (schema_body w vb f)) = None"
proof (cases "map_example_to_schema w f ''.''")
  case None
  then show ?thesis by (simp add: schema_body_def Let_def)
next
  case (Some sf)
  obtain r where "validate_with_schema w f sf = Inr r"
    using schema_returns [of w f sf] by blast
  with Some show ?thesis by (cases r) (simp add: schema_body_def Let_def)
qed

lemma run_files_quiet:
  "(\<forall>f \<in> set fs. snd (snd (body f)) = None) \<Longrightarrow> snd (snd (run_files body fs)) = None"
proof (induction fs)
  case Nil
  show ?case by simp
next
  case (Cons f fs)
  then have b: "snd (snd (body f)) = None" and r: "snd (snd (run_files body fs)) = None"
    by simp_all
  obtain k ls where bf: "body f = (k, ls, None)" using b by (cases "body f") auto
  obtain n out where rf: "run_files body fs = (n, out, None)"
    using r by (cases "run_files body fs") auto
  from bf rf show ?case by simp
qed

lemma syntax_stage_quiet: "snd (snd (syntax_stage w vb fs)) = None"
proof -
  have "snd (snd (run_files (syntax_body w vb) fs)) = None"
    by (rule run_files_quiet) (simp add: syntax_body_quiet)
  then obtain n ls where "run_files (syntax_body w vb) fs = (n, ls, None)"
    by (cases "run_files (syntax_body w vb) fs") auto
  then show ?thesis by (simp add: syntax_stage_def)
qed

lemma jsonld_stage_quiet: "snd (snd (jsonld_stage w vb fs)) = None"
proof -
  have "snd (snd (run_files (jsonld_body w vb) fs)) = None"
    by (rule run_files_quiet) (simp add: jsonld_body_quiet)
  then obtain n ls where "run_files (jsonld_body w vb) fs = (n, ls, None)"
    by (cases "run_files (jsonld_body w vb) fs") auto
  then show ?thesis by (simp add: jsonld_stage_def)
qed

lemma schema_stage_quiet: "snd (snd (schema_stage w vb fs)) = None"
proof -
  have "snd (snd (run_files (schema_body w vb) fs)) = None"
    by (rule run_files_quiet) (simp add: schema_body_quiet)
  then obtain n ls where "run_files (schema_body w vb) fs = (n, ls, None)"
    by (cases "run_files (schema_body w vb) fs") auto
  then show ?thesis by (simp add: schema_stage_def)
qed

lemma when_stage_quiet:
  "prior = None \<Longrightarrow> snd (snd s) = None \<Longrightarrow> snd (snd (when_stage sel prior s)) = None"
  by (simp add: when_stage_def)

text \<open>The shape of a run over a non-empty file list.\<close>

lemma main_shape:
  assumes "discovered w a \<noteq> []"
  defines "ra \<equiv> \<not> (run_syntax a \<or> run_jsonld a \<or> run_schema a \<or> run_context a)"
  defines "ex \<equiv> filter is_example (discovered w a)"
  defines "s1 \<equiv> when_stage (ra \<or> run_syntax a) None (syntax_stage w (verbose a) (discovered w a))"
  defines "s2 \<equiv> when_stage (ra \<or> run_jsonld a) None
                   (jsonld_stage w (verbose a) (filter is_jsonld (discovered w a)))"
  defines "s3 \<equiv> when_stage (ra \<or> run_schema a) None (schema_stage w (verbose a) ex)"
  defines "s4 \<equiv> when_stage (ra \<or> run_context a) None (context_stage w (verbose a) ex)"
  shows "main w a =
    \<lparr>stdout = preamble w a ra @ snd (discover w (paths a)) @ fst (snd s1) @ fst (snd s2)
               @ fst (snd s3) @ fst (snd s4)
               @ (if snd (snd s4) = None
                  then summary ra a (discovered w a) (filter is_jsonld (discovered w a)) ex
                         (fst s1) (fst s2) (fst s3) (fst s4)
                  else []),
     total_syntax_errors = fst s1, total_jsonld_errors = fst s2,
     total_schema_errors = fst s3, total_context_errors = fst s4, raised = snd (snd s4)\<rparr>"
proof -
  have q1: "snd (snd s1) = None"
    unfolding s1_def by (rule when_stage_quiet) (simp_all add: syntax_stage_quiet)
  have q2: "snd (snd s2) = None"
    unfolding s2_def by (rule when_stage_quiet) (simp_all add: jsonld_stage_quiet)
  have q3: "snd (snd s3) = None"
    unfolding s3_def by (rule when_stage_quiet) (simp_all add: schema_stage_quiet)
  obtain e1 o1 where t1: "s1 = (e1, o1, None)" using q1 by (cases s1) auto
  obtain e2 o2 where t2: "s2 = (e2, o2, None)" using q2 by (cases s2) auto
  obtain e3 o3 where t3: "s3 = (e3, o3, None)" using q3 by (cases s3) auto
  obtain e4 o4 r4 where t4: "s4 = (e4, o4, r4)" by (cases s4) auto
  obtain found warned where d: "discover w (paths a) = (found, warned)"
    by (cases "discover w (paths a)") auto
  have ne: "sort (remdups found) \<noteq> []" using assms(1) d by (simp add: discovered_def)
  show ?thesis
    using t1 t2 t3 t4 d ne
    unfolding s1_def s2_def s3_def s4_def ex_def ra_def discovered_def
    by (simp add: main_def Let_def del: discover.simps)
qed


lemma run_files_zero:
  "(\<forall>f \<in> set fs. fst (body f) = 0 \<and> snd (snd (body f)) = None)
     \<Longrightarrow> fst (run_files body fs) = 0"
proof (induction fs)
  case Nil
  show ?case by simp
next
  case (Cons f fs)
  then have b: "fst (body f) = 0" "snd (snd (body f)) = None"
    and r: "fst (run_files body fs) = 0"
    by simp_all
  obtain ls where bf: "body f = (0, ls, None)" using b by (cases "body f") auto
  obtain out q where rf: "run_files body fs = (0, out, q)"
    using r by (cases "run_files body fs") auto
  from bf rf show ?case by simp
qed

lemma schema_body_skips:
  "map_example_to_schema w f ''.'' = None \<Longrightarrow> fst (schema_body w vb f) = 0"
  by (simp add: schema_body_def Let_def)

lemma schema_stage_skips:
  assumes "\<forall>f \<in> set fs. map_example_to_schema w f ''.'' = None"
  shows "fst (schema_stage w vb fs) = 0"
proof -
  have z: "fst (run_files (schema_body w vb) fs) = 0"
    by (rule run_files_zero) (simp add: assms schema_body_skips schema_body_quiet)
  obtain n ls q where r: "run_files (schema_body w vb) fs = (n, ls, q)"
    by (cases "run_files (schema_body w vb) fs") auto
  with z have "n = 0" by simp
  with r show ?thesis by (cases q) (simp_all add: schema_stage_def)
qed

lemma context_returns:
  assumes "\<forall>d. load_json w f = Inr d \<longrightarrow> (\<exists>kvs. d = JObj kvs)"
  shows "\<exists>r. check_context_utilization w f b = Inr r"
proof (cases "load_json w f")
  case (Inl e)
  then obtain m where "validate_json_syntax w f = Inr (False, m)"
    by (cases e) (simp_all add: validate_json_syntax_def)
  then show ?thesis by (auto simp: check_context_utilization_def)
next
  case (Inr d)
  with assms obtain kvs where "d = JObj kvs" by blast
  with Inr have l: "load_json w f = Inr (JObj kvs)" by simp
  then have "validate_json_syntax w f = Inr (True, [])" by (rule syntax_ok_of_load)
  with l show ?thesis
    by (auto simp: check_context_utilization_def Let_def split: option.splits sum.splits exn.splits)
qed

lemma context_body_quiet:
  assumes "\<forall>d. load_json w f = Inr d \<longrightarrow> (\<exists>kvs. d = JObj kvs)"
  shows "snd (snd (context_body w vb f)) = None"
  using context_returns [OF assms, of "''.''"] by (auto simp: context_body_def Let_def)

lemma context_stage_quiet:
  assumes "\<forall>f \<in> set fs. \<forall>d. load_json w f = Inr d \<longrightarrow> (\<exists>kvs. d = JObj kvs)"
  shows "snd (snd (context_stage w vb fs)) = None"
proof -
  have "snd (snd (run_files (context_body w vb) fs)) = None"
    by (rule run_files_quiet) (simp add: assms context_body_quiet)
  then obtain n ls where "run_files (context_body w vb) fs = (n, ls, None)"
    by (cases "run_files (context_body w vb) fs") auto
  then show ?thesis by (simp add: context_stage_def)
qed

lemma context_when_quiet:
  assumes "run_context a \<or> \<not> (run_syntax a \<or> run_jsonld a \<or> run_schema a \<or> run_context a) \<longrightarrow>
             (\<forall>f \<in> set fs. \<forall>d. load_json w f = Inr d \<longrightarrow> (\<exists>kvs. d = JObj kvs))"
  shows "snd (snd (when_stage
                     (\<not> (run_syntax a \<or> run_jsonld a \<or> run_schema a \<or> run_context a)
                        \<or> run_context a)
                     None (context_stage w vb fs))) = None"
proof (cases "\<not> (run_syntax a \<or> run_jsonld a \<or> run_schema a \<or> run_context a) \<or> run_context a")
  case True
  with assms have "\<forall>f \<in> set fs. \<forall>d. load_json w f = Inr d \<longrightarrow> (\<exists>kvs. d = JObj kvs)"
    by blast
  then have "snd (snd (context_stage w vb fs)) = None"
    by (rule context_stage_quiet)
  then show ?thesis by (simp add: when_stage_def)
next
  case False
  then show ?thesis by (auto simp: when_stage_def)
qed

lemma main_no_files:
  assumes "discovered w a = []"
  shows "main w a =
           \<lparr>stdout = preamble w a (\<not> (run_syntax a \<or> run_jsonld a \<or> run_schema a \<or> run_context a))
                       @ snd (discover w (paths a))
                       @ [''No files found to validate based on the provided paths.''],
            total_syntax_errors = 0, total_jsonld_errors = 0,
            total_schema_errors = 0, total_context_errors = 0, raised = None\<rparr>"
proof -
  obtain found warned where d: "discover w (paths a) = (found, warned)"
    by (cases "discover w (paths a)") auto
  with assms have "sort (remdups found) = []" by (simp add: discovered_def)
  with d show ?thesis by (simp add: main_def Let_def del: discover.simps)
qed

text \<open>
  C3, as the code has it. Take a run with the schema check selected, over a corpus with
  at least one classified example file, none of which has a schema binding, and in
  which the context check is not selected or every example's parsed document is a JSON
  object. The schema counter is 0 and the summary prints 0 errors out of the number of
  classified example files: the denominator is \<^verbatim>\<open>len(example_files)\<close>,
  skipped files included.
\<close>

theorem schema_summary_counts_examples:
  assumes selected: "run_schema a \<or> \<not> (run_syntax a \<or> run_jsonld a \<or> run_schema a \<or> run_context a)"
    and examples: "filter is_example (discovered w a) \<noteq> []"
    and unbound: "\<forall>f \<in> set (filter is_example (discovered w a)).
                    map_example_to_schema w f ''.'' = None"
    and objects:
      "run_context a \<or> \<not> (run_syntax a \<or> run_jsonld a \<or> run_schema a \<or> run_context a) \<longrightarrow>
         (\<forall>f \<in> set (filter is_example (discovered w a)).
            \<forall>d. load_json w f = Inr d \<longrightarrow> (\<exists>kvs. d = JObj kvs))"
  shows "total_schema_errors (main w a) = 0
         \<and> schema_summary_line 0 (length (filter is_example (discovered w a)))
             \<in> set (stdout (main w a))"
proof -
  let ?ra = "\<not> (run_syntax a \<or> run_jsonld a \<or> run_schema a \<or> run_context a)"
  let ?ex = "filter is_example (discovered w a)"
  have files: "discovered w a \<noteq> []"
    using examples by auto
  have z: "fst (schema_stage w (verbose a) ?ex) = 0"
    using unbound by (rule schema_stage_skips)
  have s3: "fst (when_stage (?ra \<or> run_schema a) None (schema_stage w (verbose a) ?ex)) = 0"
    using z by (simp add: when_stage_def)
  note shape = main_shape [OF files]
  have t: "total_schema_errors (main w a) = 0"
    using s3 by (simp add: shape)
  have q: "snd (snd (when_stage (?ra \<or> run_context a) None
                       (context_stage w (verbose a) ?ex))) = None"
    using objects by (rule context_when_quiet)
  have "schema_summary_line 0 (length ?ex)
          \<in> set (summary ?ra a (discovered w a) (filter is_jsonld (discovered w a)) ?ex
                   e1 e2 0 e4)" for e1 e2 e4
    using selected by (auto simp: summary_def)
  then have "schema_summary_line 0 (length ?ex) \<in> set (stdout (main w a))"
    using q s3 by (simp add: shape)
  with t show ?thesis by blast
qed

text \<open>
  C1, as the code has it. \<^verbatim>\<open>main\<close> never asks for an exit status. In every
  run in which the context check is not selected or the documents handed to it are JSON
  objects, \<^verbatim>\<open>main\<close> returns and the process exits with code 0, whatever the
  four counters hold. When a file was found, that some check failed shows only in the
  last line printed, which is the failure verdict exactly when some counter is not
  zero. When no file was found the last line says so and every counter is zero.
\<close>

theorem exit_code_zero:
  assumes objects:
    "run_context a \<or> \<not> (run_syntax a \<or> run_jsonld a \<or> run_schema a \<or> run_context a) \<longrightarrow>
       (\<forall>f \<in> set (filter is_example (discovered w a)).
          \<forall>d. load_json w f = Inr d \<longrightarrow> (\<exists>kvs. d = JObj kvs))"
  shows "exit_code (main w a) = 0
         \<and> (discovered w a \<noteq> [] \<longrightarrow>
              last (stdout (main w a)) =
                (if total_syntax_errors (main w a) = 0 \<and> total_jsonld_errors (main w a) = 0
                    \<and> total_schema_errors (main w a) = 0 \<and> total_context_errors (main w a) = 0
                 then CHR 0x0A # ''All selected validations passed successfully for all processed files!''
                 else CHR 0x0A # ''Some validations failed. Please review the errors detailed above.''))
         \<and> (discovered w a = [] \<longrightarrow>
              last (stdout (main w a)) = ''No files found to validate based on the provided paths.''
              \<and> total_syntax_errors (main w a) = 0 \<and> total_jsonld_errors (main w a) = 0
              \<and> total_schema_errors (main w a) = 0 \<and> total_context_errors (main w a) = 0)"
proof (cases "discovered w a = []")
  case True
  then show ?thesis by (simp add: exit_code_def main_no_files)
next
  case False
  let ?ra = "\<not> (run_syntax a \<or> run_jsonld a \<or> run_schema a \<or> run_context a)"
  let ?ex = "filter is_example (discovered w a)"
  note shape = main_shape [OF False]
  have q: "snd (snd (when_stage (?ra \<or> run_context a) None
                       (context_stage w (verbose a) ?ex))) = None"
    using objects by (rule context_when_quiet)
  have r: "raised (main w a) = None" using q by (simp add: shape)
  have l: "last (stdout (main w a)) =
             verdict_line True (total_syntax_errors (main w a)) (total_jsonld_errors (main w a))
               (total_schema_errors (main w a)) (total_context_errors (main w a))"
  proof -
    have tt: "(?ra \<or> run_syntax a \<or> run_jsonld a \<or> run_schema a \<or> run_context a) = True"
      by blast
    show ?thesis using q by (simp add: shape summary_def tt del: de_Morgan_disj)
  qed
  from False r l show ?thesis by (simp add: exit_code_def verdict_line_def)
qed

text \<open>
  The claim as worded fails at a run of the syntax check over one malformed file: one
  error is counted and reported, and the exit code is 0.
\<close>

lemma broken_discover:
  "discover bad_json_world [''examples/broken.json''] = ([''/repo/examples/broken.json''], [])"
  by (simp add: bad_json_world_def fs_world_def abspath_def path_eval)

lemma broken_syntax:
  "validate_json_syntax bad_json_world ''/repo/examples/broken.json''
     = Inr (False, ''Syntax error: Expecting value (line 3, column 14)'')"
  by (simp add: validate_json_syntax_def bad_json_world_def fs_world_def path_eval
        string_of_nat.simps)

theorem exit_code_counterexample:
  "total_syntax_errors (main bad_json_world (syntax_only [''examples/broken.json''])) = 1
   \<and> exit_code (main bad_json_world (syntax_only [''examples/broken.json''])) = 0
   \<and> last (stdout (main bad_json_world (syntax_only [''examples/broken.json''])))
       = CHR 0x0A # ''Some validations failed. Please review the errors detailed above.''"
  by (simp add: main_def syntax_only_def when_stage_def syntax_stage_def syntax_body_def
        broken_discover broken_syntax Let_def exit_code_def summary_def verdict_line_def
        del: discover.simps)

lemma other_discovered:
  "discovered ctx_world (context_only [''examples/other_example.json''])
     = [''/repo/examples/other_example.json'']"
  by (simp add: discovered_def context_only_def other_discover del: discover.simps)

lemma other_totals:
  "total_syntax_errors (main ctx_world (context_only [''examples/other_example.json''])) = 0"
  "total_jsonld_errors (main ctx_world (context_only [''examples/other_example.json''])) = 0"
  "total_schema_errors (main ctx_world (context_only [''examples/other_example.json''])) = 0"
  "total_context_errors (main ctx_world (context_only [''examples/other_example.json''])) = 1"
  by (simp_all add: main_def context_only_def when_stage_def context_stage_def context_body_def
          other_discover other_is_example other_check Let_def is_jsonld_def endswith_def
          del: discover.simps)

lemma nothing_discovered:
  "discovered ctx_world (context_only [''examples/absent.json'']) = []"
  by (simp add: discovered_def context_only_def world_eval path_eval)

theorem exit_code_zero_witness:
  "total_context_errors (main ctx_world (context_only [''examples/other_example.json''])) = 1
   \<and> exit_code (main ctx_world (context_only [''examples/other_example.json''])) = 0
   \<and> last (stdout (main ctx_world (context_only [''examples/other_example.json''])))
       = CHR 0x0A # ''Some validations failed. Please review the errors detailed above.''
   \<and> exit_code (main ctx_world (context_only [''examples/absent.json''])) = 0
   \<and> last (stdout (main ctx_world (context_only [''examples/absent.json''])))
       = ''No files found to validate based on the provided paths.''"
proof -
  let ?a = "context_only [''examples/other_example.json'']"
  let ?b = "context_only [''examples/absent.json'']"
  have h: "run_context ?a \<or> \<not> (run_syntax ?a \<or> run_jsonld ?a \<or> run_schema ?a \<or> run_context ?a)
        \<longrightarrow> (\<forall>f \<in> set (filter is_example (discovered ctx_world ?a)).
              \<forall>d. load_json ctx_world f = Inr d \<longrightarrow> (\<exists>kvs. d = JObj kvs))"
    by (simp add: other_discovered other_is_example other_example_eval)
  have ne: "discovered ctx_world ?a \<noteq> []" by (simp add: other_discovered)
  have g: "run_context ?b \<or> \<not> (run_syntax ?b \<or> run_jsonld ?b \<or> run_schema ?b \<or> run_context ?b)
        \<longrightarrow> (\<forall>f \<in> set (filter is_example (discovered ctx_world ?b)).
              \<forall>d. load_json ctx_world f = Inr d \<longrightarrow> (\<exists>kvs. d = JObj kvs))"
    by (simp add: nothing_discovered)
  from exit_code_zero [OF h] ne other_totals
  have p: "exit_code (main ctx_world ?a) = 0
     \<and> last (stdout (main ctx_world ?a))
         = CHR 0x0A # ''Some validations failed. Please review the errors detailed above.''"
    by simp
  from exit_code_zero [OF g] nothing_discovered
  have q: "exit_code (main ctx_world ?b) = 0
     \<and> last (stdout (main ctx_world ?b))
         = ''No files found to validate based on the provided paths.''"
    by simp
  from p q other_totals(4) show ?thesis by blast
qed

text \<open>
  The claim as worded fails at a run of the schema check over one valid example with no
  schema: the summary says 0 errors out of 1, not out of 0.
\<close>

lemma extra_discover:
  "discover ctx_world [''examples/extra_example.json''] = ([''/repo/examples/extra_example.json''], [])"
  by (simp add: world_eval path_eval)

lemma extra_is_example: "is_example ''/repo/examples/extra_example.json''"
  by (simp add: is_example_def path_eval)

lemma extra_no_schema:
  "map_example_to_schema ctx_world ''/repo/examples/extra_example.json'' ''.'' = None"
  by (simp add: map_example_to_schema_def world_eval path_eval)

lemma extra_discovered:
  "discovered ctx_world (schema_only [''examples/extra_example.json''])
     = [''/repo/examples/extra_example.json'']"
  by (simp add: discovered_def schema_only_def extra_discover del: discover.simps)

lemma extra_run:
  "main ctx_world (schema_only [''examples/extra_example.json'']) =
     \<lparr>stdout =
        [CHR 0x0A # ''--- Running Schema Validation for Examples ---'',
         ''All processed example files validated successfully against their schemas (or no schema was found/applicable).'',
         CHR 0x0A # ''--- Validation Process Finished ---'',
         CHR 0x0A # ''--- Validation Summary ---'',
         ''Schema Validation (Examples): 0 error(s) found out of 1 example files processed for schema checks.'',
         CHR 0x0A # ''All selected validations passed successfully for all processed files!''],
      total_syntax_errors = 0, total_jsonld_errors = 0,
      total_schema_errors = 0, total_context_errors = 0, raised = None\<rparr>"
  by (simp add: main_def schema_only_def when_stage_def schema_stage_def schema_body_def
        extra_discover extra_is_example extra_no_schema Let_def is_jsonld_def endswith_def
        truthy_path_def summary_def schema_summary_line_def verdict_line_def preamble_def
        string_of_nat.simps del: discover.simps)

theorem schema_summary_counterexample:
  "load_json ctx_world ''/repo/examples/extra_example.json''
     = Inr (JObj [(''@context'', JStr ''../contexts/skill_profile_context.jsonld'')])
   \<and> map_example_to_schema ctx_world ''/repo/examples/extra_example.json'' ''.'' = None
   \<and> ''Schema Validation (Examples): 0 error(s) found out of 1 example files processed for schema checks.''
        \<in> set (stdout (main ctx_world (schema_only [''examples/extra_example.json''])))
   \<and> ''Schema Validation (Examples): 0 error(s) found out of 0 example files processed for schema checks.''
        \<notin> set (stdout (main ctx_world (schema_only [''examples/extra_example.json''])))"
  by (simp add: extra_run extra_no_schema extra_example_eval)

lemma extra_all_discovered:
  "discovered ctx_world (all_checks [''examples/extra_example.json''])
     = [''/repo/examples/extra_example.json'']"
  by (simp add: discovered_def all_checks_def extra_discover del: discover.simps)

theorem schema_summary_counts_examples_witness:
  "total_schema_errors (main ctx_world (all_checks [''examples/extra_example.json''])) = 0
   \<and> schema_summary_line 0 1
        \<in> set (stdout (main ctx_world (all_checks [''examples/extra_example.json''])))"
proof -
  let ?a = "all_checks [''examples/extra_example.json'']"
  have sel: "run_schema ?a \<or> \<not> (run_syntax ?a \<or> run_jsonld ?a \<or> run_schema ?a \<or> run_context ?a)"
    by (simp add: all_checks_def)
  have ex: "filter is_example (discovered ctx_world ?a) \<noteq> []"
    by (simp add: extra_all_discovered extra_is_example)
  have un: "\<forall>f \<in> set (filter is_example (discovered ctx_world ?a)).
              map_example_to_schema ctx_world f ''.'' = None"
    by (simp add: extra_all_discovered extra_is_example extra_no_schema)
  have ob: "run_context ?a \<or> \<not> (run_syntax ?a \<or> run_jsonld ?a \<or> run_schema ?a \<or> run_context ?a)
        \<longrightarrow> (\<forall>f \<in> set (filter is_example (discovered ctx_world ?a)).
              \<forall>d. load_json ctx_world f = Inr d \<longrightarrow> (\<exists>kvs. d = JObj kvs))"
    by (simp add: extra_all_discovered extra_is_example extra_example_eval)
  have len: "length (filter is_example (discovered ctx_world ?a)) = 1"
    by (simp add: extra_all_discovered extra_is_example)
  from schema_summary_counts_examples [OF sel ex un ob] len show ?thesis by simp
qed

section \<open>Classification of example files\<close>

lemma odd_discover:
  "discover odd_dir_world [''old_example.json.d/a.json'']
     = ([''/data/old_example.json.d/a.json''], [])"
  by (simp add: odd_dir_world_def fs_world_def abspath_def path_eval)

lemma odd_is_example: "is_example ''/data/old_example.json.d/a.json''"
  by (simp add: is_example_def startswith_def)

lemma odd_not_by_convention:
  "\<not> spec_is_example odd_dir_world ''/data/old_example.json.d/a.json''"
  by (simp add: spec_is_example_def odd_dir_world_def fs_world_def abspath_def path_eval)

lemma odd_no_schema:
  "map_example_to_schema odd_dir_world ''/data/old_example.json.d/a.json'' ''.'' = None"
  by (simp add: map_example_to_schema_def path_eval)

lemma odd_run:
  "stdout (main odd_dir_world (schema_only [''old_example.json.d/a.json''])) =
     [CHR 0x0A # ''--- Running Schema Validation for Examples ---'',
      ''All processed example files validated successfully against their schemas (or no schema was found/applicable).'',
      CHR 0x0A # ''--- Validation Process Finished ---'',
      CHR 0x0A # ''--- Validation Summary ---'',
      ''Schema Validation (Examples): 0 error(s) found out of 1 example files processed for schema checks.'',
      CHR 0x0A # ''All selected validations passed successfully for all processed files!'']"
  by (simp add: main_def schema_only_def when_stage_def schema_stage_def schema_body_def
        odd_discover odd_is_example odd_no_schema Let_def is_jsonld_def endswith_def
        summary_def schema_summary_line_def verdict_line_def preamble_def
        string_of_nat.simps del: discover.simps)

lemma notes_discover: "discover glob_world [''.''] = ([''./notes.json''], [])"
  by (simp add: glob_world_def path_eval)

lemma notes_abspath: "abspath glob_world ''./notes.json'' = ''/repo/examples/notes.json''"
  by (simp add: glob_world_def abspath_def path_eval)

lemma notes_by_convention: "spec_is_example glob_world ''./notes.json''"
  unfolding spec_is_example_def notes_abspath by simp

lemma notes_not_example: "\<not> is_example ''./notes.json''"
  by (simp add: is_example_def path_eval)

lemma notes_run:
  "stdout (main glob_world (schema_only [''.''])) =
     [CHR 0x0A # ''--- Running Schema Validation for Examples ---'',
      ''No example files found for schema validation among processed files.'',
      CHR 0x0A # ''--- Validation Process Finished ---'',
      CHR 0x0A # ''--- Validation Summary ---'',
      ''Schema Validation (Examples): 0 error(s) found out of 0 example files processed for schema checks.'',
      CHR 0x0A # ''All selected validations passed successfully for all processed files!'']"
  by (simp add: main_def schema_only_def when_stage_def schema_stage_def
        notes_discover notes_not_example Let_def is_jsonld_def endswith_def
        summary_def schema_summary_line_def verdict_line_def preamble_def
        string_of_nat.simps del: discover.simps)

text \<open>
  C8. The orchestrator is to treat a file as an example exactly when its resolved
  absolute path has a segment \<^verbatim>\<open>examples\<close> or its name matches an example
  suffix. The code misses this twice. Its name test looks for
  \<^verbatim>\<open>_example.json\<close> anywhere in the whole path: the file
  \<^verbatim>\<open>/data/old_example.json.d/a.json\<close>, which meets neither convention and
  for which the schema locator finds no example name, is handed to the schema check
  and counted in its summary. Its directory test splits the path as discovered: the
  file \<^verbatim>\<open>./notes.json\<close>, found under the argument \<^verbatim>\<open>.\<close> from
  inside \<^verbatim>\<open>/repo/examples\<close>, lies in a directory named
  \<^verbatim>\<open>examples\<close> and is not treated as an example.
\<close>

theorem classification_failing_inputs:
  "discovered odd_dir_world (schema_only [''old_example.json.d/a.json''])
     = [''/data/old_example.json.d/a.json'']
   \<and> \<not> spec_is_example odd_dir_world ''/data/old_example.json.d/a.json''
   \<and> map_example_to_schema odd_dir_world ''/data/old_example.json.d/a.json'' ''.'' = None
   \<and> is_example ''/data/old_example.json.d/a.json''
   \<and> ''Schema Validation (Examples): 0 error(s) found out of 1 example files processed for schema checks.''
        \<in> set (stdout (main odd_dir_world (schema_only [''old_example.json.d/a.json''])))
   \<and> discovered glob_world (schema_only [''.'']) = [''./notes.json'']
   \<and> abspath glob_world ''./notes.json'' = ''/repo/examples/notes.json''
   \<and> spec_is_example glob_world ''./notes.json''
   \<and> \<not> is_example ''./notes.json''
   \<and> ''No example files found for schema validation among processed files.''
        \<in> set (stdout (main glob_world (schema_only [''.''])))"
proof -
  have a: "discovered odd_dir_world (schema_only [''old_example.json.d/a.json''])
     = [''/data/old_example.json.d/a.json'']"
    by (simp add: discovered_def schema_only_def odd_discover del: discover.simps)
  have b: "discovered glob_world (schema_only [''.'']) = [''./notes.json'']"
    by (simp add: discovered_def schema_only_def notes_discover del: discover.simps)
  have c: "''Schema Validation (Examples): 0 error(s) found out of 1 example files processed for schema checks.''
        \<in> set (stdout (main odd_dir_world (schema_only [''old_example.json.d/a.json''])))"
    by (simp add: odd_run)
  have d: "''No example files found for schema validation among processed files.''
        \<in> set (stdout (main glob_world (schema_only [''.''])))"
    by (simp add: notes_run)
  from a b c d odd_not_by_convention odd_no_schema odd_is_example notes_abspath
    notes_by_convention notes_not_example
  show ?thesis by blast
qed

end
